theory Spec2Isabelle
  imports Complex_Main "HOL-Library.Word" "HOL-Library.Sublist" "HOL-Library.Log_Nat"
begin

unbundle bit_operations_syntax

section \<open>Strings and whitespace\<close>

text \<open>
  A Go string is a sequence of bytes; it is modelled as a \<open>string\<close> (a list of 8-bit
  characters). \<open>strings.TrimSpace\<close> and \<open>bytes.TrimSpace\<close> remove leading and trailing
  Unicode white space. On the UTF-8 bytes this is: strip, as long as possible, a prefix
  (a suffix) that is the encoding of a code point with the White_Space property. The
  table lists those encodings: U+0009..U+000D, U+0020, U+0085, U+00A0, U+1680,
  U+2000..U+200A, U+2028, U+2029, U+202F, U+205F, U+3000.
\<close>

definition unicode_spaces :: "string list" where
  "unicode_spaces =
     [[CHR 0x09], [CHR 0x0A], [CHR 0x0B], [CHR 0x0C], [CHR 0x0D], [CHR 0x20],
      [CHR 0xC2, CHR 0x85], [CHR 0xC2, CHR 0xA0],
      [CHR 0xE1, CHR 0x9A, CHR 0x80],
      [CHR 0xE2, CHR 0x80, CHR 0x80], [CHR 0xE2, CHR 0x80, CHR 0x81],
      [CHR 0xE2, CHR 0x80, CHR 0x82], [CHR 0xE2, CHR 0x80, CHR 0x83],
      [CHR 0xE2, CHR 0x80, CHR 0x84], [CHR 0xE2, CHR 0x80, CHR 0x85],
      [CHR 0xE2, CHR 0x80, CHR 0x86], [CHR 0xE2, CHR 0x80, CHR 0x87],
      [CHR 0xE2, CHR 0x80, CHR 0x88], [CHR 0xE2, CHR 0x80, CHR 0x89],
      [CHR 0xE2, CHR 0x80, CHR 0x8A],
      [CHR 0xE2, CHR 0x80, CHR 0xA8], [CHR 0xE2, CHR 0x80, CHR 0xA9],
      [CHR 0xE2, CHR 0x80, CHR 0xAF], [CHR 0xE2, CHR 0x81, CHR 0x9F],
      [CHR 0xE3, CHR 0x80, CHR 0x80]]"

definition space_prefix :: "string \<Rightarrow> string option" where
  "space_prefix s = find (\<lambda>w. prefix w s) unicode_spaces"

definition space_suffix :: "string \<Rightarrow> string option" where
  "space_suffix s = find (\<lambda>w. suffix w s) unicode_spaces"

function trim_left :: "string \<Rightarrow> string" where
  "trim_left s =
     (case space_prefix s of
        None \<Rightarrow> s
      | Some w \<Rightarrow> if w = [] then s else trim_left (drop (length w) s))"
  by pat_completeness auto
termination
proof (relation "measure length")
  show "wf (measure length)" by simp
next
  fix s :: string and w :: string
  assume "space_prefix s = Some w" and "w \<noteq> []"
  then have "prefix w s"
    by (auto simp: space_prefix_def find_Some_iff)
  with \<open>w \<noteq> []\<close> have "s \<noteq> []" by auto
  with \<open>w \<noteq> []\<close> show "(drop (length w) s, s) \<in> measure length" by simp
qed

function trim_right :: "string \<Rightarrow> string" where
  "trim_right s =
     (case space_suffix s of
        None \<Rightarrow> s
      | Some w \<Rightarrow> if w = [] then s else trim_right (take (length s - length w) s))"
  by pat_completeness auto
termination
proof (relation "measure length")
  show "wf (measure length)" by simp
next
  fix s :: string and w :: string
  assume "space_suffix s = Some w" and "w \<noteq> []"
  then have "suffix w s"
    by (auto simp: space_suffix_def find_Some_iff)
  with \<open>w \<noteq> []\<close> have "s \<noteq> []" by auto
  with \<open>w \<noteq> []\<close> show "(take (length s - length w) s, s) \<in> measure length" by simp
qed

declare trim_left.simps [simp del] trim_right.simps [simp del]

definition TrimSpace :: "string \<Rightarrow> string" where
  "TrimSpace s = trim_right (trim_left s)"

section \<open>The request model (package llm)\<close>

text \<open>
  A \<open>float32\<close> is one of: a finite value (modelled by the rational it denotes), an
  infinity, or a NaN. The Go comparison \<open><\<close> is false whenever a NaN is involved.
\<close>

datatype float32 = Fin rat | PosInf | NegInf | NaN

fun f32_lt :: "float32 \<Rightarrow> float32 \<Rightarrow> bool" where
  "f32_lt NaN _ = False"
| "f32_lt _ NaN = False"
| "f32_lt (Fin a) (Fin b) = (a < b)"
| "f32_lt NegInf NegInf = False"
| "f32_lt NegInf _ = True"
| "f32_lt _ NegInf = False"
| "f32_lt PosInf _ = False"
| "f32_lt _ PosInf = True"

text \<open>A Go slice is \<open>nil\<close> (\<open>None\<close>) or a sequence; \<open>len\<close> and \<open>range\<close> treat \<open>nil\<close> as empty.\<close>

type_synonym 'a slice = "'a list option"

definition elems :: "'a slice \<Rightarrow> 'a list" where
  "elems s = (case s of None \<Rightarrow> [] | Some xs \<Rightarrow> xs)"

definition RoleSystem :: string where "RoleSystem = ''system''"
definition RoleUser :: string where "RoleUser = ''user''"
definition RoleAssistant :: string where "RoleAssistant = ''assistant''"

record ChatMessage =
  Role :: string
  Content :: string

record ChatRequest =
  Model :: string
  Messages :: "ChatMessage slice"
  Temperature :: float32
  TopP :: float32
  MaxTokens :: int
  Stop :: "string slice"
  Stream :: bool

datatype validate_error =
    ModelRequired
  | MessagesRequired
  | InvalidRole string nat
  | ContentRequired nat
  | TemperatureRange
  | TopPRange

text \<open>The loop of \<open>Validate\<close> over the messages: the first offending message decides.\<close>

fun validate_messages :: "nat \<Rightarrow> ChatMessage list \<Rightarrow> validate_error option" where
  "validate_messages i [] = None"
| "validate_messages i (m # ms) =
     (if Role m \<noteq> RoleSystem \<and> Role m \<noteq> RoleUser \<and> Role m \<noteq> RoleAssistant
        then Some (InvalidRole (Role m) i)
      else if Content m = [] \<and> Role m \<noteq> RoleSystem
        then Some (ContentRequired i)
      else validate_messages (Suc i) ms)"

definition Validate :: "ChatRequest \<Rightarrow> validate_error option" where
  "Validate r =
     (if Model r = [] then Some ModelRequired
      else if length (elems (Messages r)) = 0 then Some MessagesRequired
      else case validate_messages 0 (elems (Messages r)) of
             Some e \<Rightarrow> Some e
           | None \<Rightarrow>
               if f32_lt (Temperature r) (Fin 0) \<or> f32_lt (Fin 2) (Temperature r)
                 then Some TemperatureRange
               else if f32_lt (TopP r) (Fin 0) \<or> f32_lt (Fin 1) (TopP r)
                 then Some TopPRange
               else None)"

text \<open>
  The ranges of the data model as the specification words them, for comparison with
  \<open>Validate\<close>: model non-empty after trimming, messages non-empty, roles among the three
  constants, content non-empty unless the role is system, temperature in [0,2], top_p in
  [0,1], max_tokens non-negative.
\<close>

definition f32_between :: "rat \<Rightarrow> rat \<Rightarrow> float32 \<Rightarrow> bool" where
  "f32_between lo hi x = (case x of Fin q \<Rightarrow> lo \<le> q \<and> q \<le> hi | _ \<Rightarrow> False)"

definition spec_fields_in_range :: "ChatRequest \<Rightarrow> bool" where
  "spec_fields_in_range r \<longleftrightarrow>
     TrimSpace (Model r) \<noteq> [] \<and>
     elems (Messages r) \<noteq> [] \<and>
     list_all (\<lambda>m. (Role m = RoleSystem \<or> Role m = RoleUser \<or> Role m = RoleAssistant) \<and>
                   (Content m \<noteq> [] \<or> Role m = RoleSystem)) (elems (Messages r)) \<and>
     f32_between 0 2 (Temperature r) \<and>
     f32_between 0 1 (TopP r) \<and>
     0 \<le> MaxTokens r"

section \<open>The in-process cache (package cache, memory.go)\<close>

text \<open>
  Instants and durations are integers (nanoseconds). Every operation reads the clock
  once; that reading is the argument \<open>now\<close>. The map is the state, passed explicitly;
  the lock makes each operation atomic. \<open>Get\<close> returns the new map, the bytes
  (\<open>None\<close> for \<open>nil\<close>), the hit flag and the error (always \<open>nil\<close>, here \<open>None\<close>).
\<close>

record memoryEntry =
  entry_value :: string
  expiresAt :: int

type_synonym items = "string \<rightharpoonup> memoryEntry"

datatype cache_error = CacheBackendFault string

definition After :: "int \<Rightarrow> int \<Rightarrow> bool" where
  "After t u \<longleftrightarrow> u < t"

definition mem_Get :: "int \<Rightarrow> items \<Rightarrow> string \<Rightarrow> items \<times> string option \<times> bool \<times> cache_error option" where
  "mem_Get now c key =
     (case c key of
        None \<Rightarrow> (c, None, False, None)
      | Some entry \<Rightarrow>
          if After now (expiresAt entry)
            then ((case c key of
                     Some e \<Rightarrow> if After now (expiresAt e) then c(key := None) else c
                   | None \<Rightarrow> c), None, False, None)
          else (c, Some (entry_value entry), True, None))"

definition mem_Set :: "int \<Rightarrow> items \<Rightarrow> string \<Rightarrow> string \<Rightarrow> int \<Rightarrow> items \<times> cache_error option" where
  "mem_Set now c key v ttl =
     (if ttl \<le> 0 then (c(key := None), None)
      else (c(key \<mapsto> \<lparr>entry_value = v, expiresAt = now + ttl\<rparr>), None))"

text \<open>One tick of the background sweeper.\<close>

definition cleanupExpired_tick :: "int \<Rightarrow> items \<Rightarrow> items" where
  "cleanupExpired_tick now c =
     (\<lambda>k. case c k of
             None \<Rightarrow> None
           | Some v \<Rightarrow> if After now (expiresAt v) then None else Some v)"

section \<open>JSON encoding of the request (struct tags of ChatRequest and providerChatRequest)\<close>

text \<open>
  \<open>encoding/json\<close> is library code. What the repository decides is the struct: the order
  of the fields, their keys and which of them carry \<open>omitempty\<close>. The encoders of the
  primitive values (a string with its escapes, a finite float, an integer) are
  parameters, collected in a record. A float that is a NaN or an infinity makes
  \<open>json.Marshal\<close> fail with an \<open>UnsupportedValueError\<close>.
\<close>

record json_enc =
  enc_string :: "string \<Rightarrow> string"
  enc_float :: "rat \<Rightarrow> string"
  enc_int :: "int \<Rightarrow> string"

datatype marshal_error = UnsupportedValue float32

fun join_with :: "string \<Rightarrow> string list \<Rightarrow> string" where
  "join_with sep [] = []"
| "join_with sep [x] = x"
| "join_with sep (x # y # ys) = x @ sep @ join_with sep (y # ys)"

definition json_member :: "string \<times> string \<Rightarrow> string" where
  "json_member kv = [CHR 0x22] @ fst kv @ [CHR 0x22] @ '':'' @ snd kv"

definition json_object :: "(string \<times> string) list \<Rightarrow> string" where
  "json_object fs = ''{'' @ join_with '','' (map json_member fs) @ ''}''"

definition json_array :: "string list \<Rightarrow> string" where
  "json_array vs = ''['' @ join_with '','' vs @ '']''"

definition marshal_ChatMessage :: "json_enc \<Rightarrow> ChatMessage \<Rightarrow> string" where
  "marshal_ChatMessage E m =
     json_object [(''role'', enc_string E (Role m)), (''content'', enc_string E (Content m))]"

text \<open>A \<open>nil\<close> slice without \<open>omitempty\<close> is encoded as \<open>null\<close>.\<close>

definition marshal_messages :: "json_enc \<Rightarrow> ChatMessage slice \<Rightarrow> string" where
  "marshal_messages E s =
     (case s of None \<Rightarrow> ''null'' | Some ms \<Rightarrow> json_array (map (marshal_ChatMessage E) ms))"

definition marshal_float :: "json_enc \<Rightarrow> float32 \<Rightarrow> string" where
  "marshal_float E x = (case x of Fin q \<Rightarrow> enc_float E q | _ \<Rightarrow> [])"

definition unsupported :: "float32 \<Rightarrow> bool" where
  "unsupported x = (case x of Fin q \<Rightarrow> False | _ \<Rightarrow> True)"

text \<open>\<open>omitempty\<close>: the member is left out when the value is the zero of its type.\<close>

definition omitempty :: "bool \<Rightarrow> string \<Rightarrow> string \<Rightarrow> (string \<times> string) list" where
  "omitempty is_empty k v = (if is_empty then [] else [(k, v)])"

text \<open>
  The members of the seven fields, in the order of the struct. \<open>ChatRequest\<close> and
  \<open>providerChatRequest\<close> declare the same fields with the same tags.
\<close>

definition request_members ::
  "json_enc \<Rightarrow> string \<Rightarrow> ChatMessage slice \<Rightarrow> float32 \<Rightarrow> float32 \<Rightarrow> int \<Rightarrow> string slice \<Rightarrow> bool
     \<Rightarrow> (string \<times> string) list" where
  "request_members E model msgs temperature top_p max_tokens stop stream =
     [(''model'', enc_string E model), (''messages'', marshal_messages E msgs)]
     @ omitempty (temperature = Fin 0) ''temperature'' (marshal_float E temperature)
     @ omitempty (top_p = Fin 0) ''top_p'' (marshal_float E top_p)
     @ omitempty (max_tokens = 0) ''max_tokens'' (enc_int E max_tokens)
     @ omitempty (length (elems stop) = 0) ''stop'' (json_array (map (enc_string E) (elems stop)))
     @ omitempty (\<not> stream) ''stream'' ''true''"

definition marshal_request ::
  "json_enc \<Rightarrow> string \<Rightarrow> ChatMessage slice \<Rightarrow> float32 \<Rightarrow> float32 \<Rightarrow> int \<Rightarrow> string slice \<Rightarrow> bool
     \<Rightarrow> marshal_error + string" where
  "marshal_request E model msgs temperature top_p max_tokens stop stream =
     (if unsupported temperature then Inl (UnsupportedValue temperature)
      else if unsupported top_p then Inl (UnsupportedValue top_p)
      else Inr (json_object
                  (request_members E model msgs temperature top_p max_tokens stop stream)))"

definition members_ChatRequest :: "json_enc \<Rightarrow> ChatRequest \<Rightarrow> (string \<times> string) list" where
  "members_ChatRequest E r =
     request_members E (Model r) (Messages r) (Temperature r) (TopP r) (MaxTokens r) (Stop r)
       (Stream r)"

definition marshal_ChatRequest :: "json_enc \<Rightarrow> ChatRequest \<Rightarrow> marshal_error + string" where
  "marshal_ChatRequest E r =
     marshal_request E (Model r) (Messages r) (Temperature r) (TopP r) (MaxTokens r) (Stop r)
       (Stream r)"

record providerChatRequest =
  p_Model :: string
  p_Messages :: "ChatMessage slice"
  p_Temperature :: float32
  p_TopP :: float32
  p_MaxTokens :: int
  p_Stop :: "string slice"
  p_Stream :: bool

definition members_providerChatRequest ::
  "json_enc \<Rightarrow> providerChatRequest \<Rightarrow> (string \<times> string) list" where
  "members_providerChatRequest E p =
     request_members E (p_Model p) (p_Messages p) (p_Temperature p) (p_TopP p) (p_MaxTokens p)
       (p_Stop p) (p_Stream p)"

definition marshal_providerChatRequest ::
  "json_enc \<Rightarrow> providerChatRequest \<Rightarrow> marshal_error + string" where
  "marshal_providerChatRequest E p =
     marshal_request E (p_Model p) (p_Messages p) (p_Temperature p) (p_TopP p) (p_MaxTokens p)
       (p_Stop p) (p_Stream p)"

text \<open>
  The provider request that \<open>ChatCompletion\<close> (\<open>stream = False\<close>) and
  \<open>ChatCompletionStream\<close> (\<open>stream = True\<close>) build from the caller's request.
\<close>

definition provider_request :: "bool \<Rightarrow> ChatRequest \<Rightarrow> providerChatRequest" where
  "provider_request stream r =
     \<lparr>p_Model = Model r, p_Messages = Messages r, p_Temperature = Temperature r,
      p_TopP = TopP r, p_MaxTokens = MaxTokens r, p_Stop = Stop r, p_Stream = stream\<rparr>"

text \<open>
  Decoding the inbound body: the handler declares a zero \<open>ChatRequest\<close> and lets
  \<open>json.Decoder.Decode\<close> fill it. A key that the body does not carry leaves the field
  at the zero value of its type. The record below is the body seen by the decoder: for
  every key, the value it stores, or \<open>None\<close> when the key is absent.
\<close>

record ChatRequest_body =
  b_model :: "string option"
  b_messages :: "ChatMessage list option"
  b_temperature :: "float32 option"
  b_top_p :: "float32 option"
  b_max_tokens :: "int option"
  b_stop :: "string list option"
  b_stream :: "bool option"

definition Decode :: "ChatRequest_body \<Rightarrow> ChatRequest" where
  "Decode b =
     \<lparr>Model = (case b_model b of None \<Rightarrow> [] | Some m \<Rightarrow> m),
      Messages = b_messages b,
      Temperature = (case b_temperature b of None \<Rightarrow> Fin 0 | Some t \<Rightarrow> t),
      TopP = (case b_top_p b of None \<Rightarrow> Fin 0 | Some t \<Rightarrow> t),
      MaxTokens = (case b_max_tokens b of None \<Rightarrow> 0 | Some n \<Rightarrow> n),
      Stop = b_stop b,
      Stream = (case b_stream b of None \<Rightarrow> False | Some s \<Rightarrow> s)\<rparr>"

section \<open>The cache key (package cache, key_builder.go)\<close>

text \<open>
  \<open>sha256.Sum256\<close> is library code returning a \<open>[32]byte\<close>; it is a parameter whose
  result is a 256-bit word, read as 32 bytes, most significant first.
  \<open>hex.EncodeToString\<close> writes every byte as two digits of the lowercase table.
\<close>

definition hextable :: string where
  "hextable = ''0123456789abcdef''"

definition hex_byte :: "8 word \<Rightarrow> string" where
  "hex_byte b = [hextable ! unat (drop_bit 4 b), hextable ! unat (b AND 0x0F)]"

definition EncodeToString :: "8 word list \<Rightarrow> string" where
  "EncodeToString bs = concat (map hex_byte bs)"

definition sum_bytes :: "256 word \<Rightarrow> 8 word list" where
  "sum_bytes w = map (\<lambda>i. ucast (drop_bit (8 * (31 - i)) w)) [0..<32]"

record ExactCacheKey =
  UserID :: string
  ModelID :: string
  VersionID :: string
  Hash :: string

definition BuildExactCacheKeyFromChatRequest ::
  "json_enc \<Rightarrow> (string \<Rightarrow> 256 word) \<Rightarrow> ChatRequest \<Rightarrow> string \<Rightarrow> string
     \<Rightarrow> marshal_error + ExactCacheKey" where
  "BuildExactCacheKeyFromChatRequest E Sum256 req userID versionID =
     (let modelID = TrimSpace (Model req) in
      case marshal_ChatRequest E req of
        Inl err \<Rightarrow> Inl err
      | Inr body \<Rightarrow>
          let normalized = ''model:'' @ modelID @ ''|body:'' @ body;
              sum = Sum256 normalized;
              hash = EncodeToString (sum_bytes sum)
          in Inr \<lparr>UserID = TrimSpace userID, ModelID = modelID,
                  VersionID = TrimSpace versionID, Hash = hash\<rparr>)"

definition key_String :: "ExactCacheKey \<Rightarrow> string" where
  "key_String k = ''exact:'' @ UserID k @ '':'' @ ModelID k @ '':'' @ VersionID k @ '':'' @ Hash k"

text \<open>\<open>strings.Split\<close> on a one-byte separator: one more field than separators.\<close>

fun split_on :: "char \<Rightarrow> string \<Rightarrow> string list" where
  "split_on c [] = [[]]"
| "split_on c (x # xs) =
     (if x = c then [] # split_on c xs
      else (case split_on c xs of
              [] \<Rightarrow> [[x]]
            | f # fs \<Rightarrow> (x # f) # fs))"

section \<open>The SSE decoder (the read loop of ChatCompletionStream)\<close>

text \<open>
  The loop runs after the connection returned a 2xx status. Its inputs are the results
  of the successive calls of \<open>reader.ReadBytes('\n')\<close>: a complete line (no error), the
  end of the body (\<open>io.EOF\<close>, with the bytes read since the last newline), or another read
  error. A list that is used up stands for a body at its end. \<open>json.Unmarshal\<close> into a
  \<open>providerStreamChunk\<close> is a parameter.

  The derived context is consulted before every read and in the \<open>select\<close> of every
  send. The outcome of the \<open>k\<close>-th consultation is \<open>done k\<close>: true when the loop
  observed the cancellation (for a send: when the \<open>select\<close> took the \<open>ctx.Done()\<close>
  branch). The output is the sequence of results sent on the channel before the channel
  is closed.
\<close>

datatype read_result = ReadOk string | ReadEOF string | ReadFail string string

record stream_choice =
  c_Index :: int
  c_Role :: string
  c_Content :: string
  c_FinishReason :: string

record providerStreamChunk =
  sc_ID :: string
  sc_Object :: string
  sc_Created :: int
  sc_Model :: string
  sc_Choices :: "stream_choice list"

record StreamChunk =
  Index :: int
  Delta :: string
  FinishReason :: string

datatype stream_error = ReadStreamLine string | UnmarshalStreamChunk string

record StreamResult =
  Chunk :: "StreamChunk option"
  Err :: "stream_error option"

definition chunk_result :: "stream_choice \<Rightarrow> StreamResult" where
  "chunk_result c =
     \<lparr>Chunk = Some \<lparr>Index = c_Index c, Delta = c_Content c, FinishReason = c_FinishReason c\<rparr>,
      Err = None\<rparr>"

definition err_result :: "stream_error \<Rightarrow> StreamResult" where
  "err_result e = \<lparr>Chunk = None, Err = Some e\<rparr>"

text \<open>
  The inner loop over the choices of one chunk. It returns the results sent, the number
  of the next consultation of the context, and whether the loop returned on cancellation.
\<close>

fun emit_choices ::
  "(nat \<Rightarrow> bool) \<Rightarrow> nat \<Rightarrow> stream_choice list \<Rightarrow> StreamResult list \<times> nat \<times> bool" where
  "emit_choices done n [] = ([], n, False)"
| "emit_choices done n (c # cs) =
     (if c_Content c = [] \<and> c_FinishReason c = [] then emit_choices done n cs
      else if done n then ([], Suc n, True)
      else (case emit_choices done (Suc n) cs of
              (out, n', cancelled) \<Rightarrow> (chunk_result c # out, n', cancelled)))"

fun read_loop ::
  "(string \<Rightarrow> string + providerStreamChunk) \<Rightarrow> (nat \<Rightarrow> bool) \<Rightarrow> nat \<Rightarrow> read_result list
     \<Rightarrow> StreamResult list" where
  "read_loop Unmarshal done n [] = []"
| "read_loop Unmarshal done n (r # rs) =
     (if done n then []
      else case r of
        ReadEOF partial \<Rightarrow> []
      | ReadFail partial e \<Rightarrow> [err_result (ReadStreamLine e)]
      | ReadOk raw \<Rightarrow>
          (let line = TrimSpace raw in
           if length line = 0 then read_loop Unmarshal done (Suc n) rs
           else if \<not> prefix ''data: '' line then read_loop Unmarshal done (Suc n) rs
           else (let payload = TrimSpace (drop (length ''data: '') line) in
                 if payload = ''[DONE]'' then []
                 else case Unmarshal payload of
                   Inl e \<Rightarrow> [err_result (UnmarshalStreamChunk e)]
                 | Inr chunk \<Rightarrow>
                     (case emit_choices done (Suc n) (sc_Choices chunk) of
                        (out, n', cancelled) \<Rightarrow>
                          if cancelled then out
                          else out @ read_loop Unmarshal done n' rs))))"

text \<open>A context that is never cancelled while the stream is decoded.\<close>

definition never :: "nat \<Rightarrow> bool" where
  "never k = False"

section \<open>The client configuration (package llm, config.go)\<close>

text \<open>
  A Go \<open>int\<close> is a 64-bit two's-complement integer (64-bit platforms); \<open>MaxRetries\<close> is
  one, because \<open>doWithRetry\<close> adds 1 to it. A \<open>time.Duration\<close> is a number of
  nanoseconds; the durations below are never combined in a way that leaves 64 bits, and
  are integers. The custom \<open>HTTPClient\<close> and the logger are not modelled.
\<close>

definition Millisecond :: int where "Millisecond = 1000000"
definition Second :: int where "Second = 1000000000"
definition Minute :: int where "Minute = 60 * Second"

record Config =
  BaseURL :: string
  APIKey :: string
  UpstreamTimeout :: int
  MaxRetries :: "64 word"
  BaseBackoff :: int
  MaxIdleConns :: "64 word"
  MaxIdleConnsPerHost :: "64 word"

datatype config_error = BaseURLRequired | APIKeyRequired

definition Config_Validate :: "Config \<Rightarrow> config_error option" where
  "Config_Validate c =
     (if BaseURL c = [] then Some BaseURLRequired
      else if APIKey c = [] then Some APIKeyRequired
      else None)"

text \<open>\<open>strings.TrimRight(s, "/")\<close>: all trailing slashes are removed.\<close>

definition TrimRight_slash :: "string \<Rightarrow> string" where
  "TrimRight_slash s = rev (dropWhile (\<lambda>c. c = CHR ''/'') (rev s))"

definition WithDefaults :: "Config \<Rightarrow> Config" where
  "WithDefaults c =
     \<lparr>BaseURL = TrimRight_slash (BaseURL c),
      APIKey = APIKey c,
      UpstreamTimeout = (if UpstreamTimeout c \<le> 0 then 30 * Second else UpstreamTimeout c),
      MaxRetries = (if MaxRetries c \<le>s 0 then 2 else MaxRetries c),
      BaseBackoff = (if BaseBackoff c \<le> 0 then 100 * Millisecond else BaseBackoff c),
      MaxIdleConns = (if MaxIdleConns c \<le>s 0 then 100 else MaxIdleConns c),
      MaxIdleConnsPerHost =
        (if MaxIdleConnsPerHost c \<le>s 0 then 100 else MaxIdleConnsPerHost c)\<rparr>"

record client =
  cfg :: Config

datatype new_client_error = InvalidConfig config_error

definition NewClient :: "Config \<Rightarrow> new_client_error + client" where
  "NewClient c =
     (let c' = WithDefaults c in
      case Config_Validate c' of
        Some e \<Rightarrow> Inl (InvalidConfig e)
      | None \<Rightarrow> Inr \<lparr>cfg = c'\<rparr>)"

section \<open>The retry engine (doWithRetry and its helpers)\<close>

subsection \<open>float64 arithmetic of computeBackoff\<close>

text \<open>
  A finite \<open>float64\<close> is the rational it denotes. \<open>f64_round\<close> is rounding to the nearest
  value with a 53-bit significand, ties to even, for the range of normal numbers (the
  values of \<open>computeBackoff\<close> never reach the subnormal range or the largest float
  without being truncated to 0 or leaving the \<open>int64\<close> range first). \<open>ilog2 x\<close> is the
  binary exponent of a positive \<open>x\<close>: \<open>2 ^ ilog2 x \<le> x < 2 ^ (ilog2 x + 1)\<close>.
\<close>

definition ilog2 :: "rat \<Rightarrow> int" where
  "ilog2 x =
     (case quotient_of x of
        (p, q) \<Rightarrow> (let d = bitlen p - bitlen q in if 2 powi d \<le> x then d else d - 1))"

definition round_half_even :: "rat \<Rightarrow> int" where
  "round_half_even y =
     (let f = \<lfloor>y\<rfloor>; d = y - of_int f in
      if d < 1 / 2 then f
      else if 1 / 2 < d then f + 1
      else if even f then f else f + 1)"

definition f64_round :: "rat \<Rightarrow> rat" where
  "f64_round x =
     (if x = 0 then 0
      else (let q = 2 powi (ilog2 \<bar>x\<bar> - 52) in of_int (round_half_even (x / q)) * q))"

definition trunc_toward_zero :: "rat \<Rightarrow> int" where
  "trunc_toward_zero x = (if 0 \<le> x then \<lfloor>x\<rfloor> else \<lceil>x\<rceil>)"

text \<open>
  The conversion \<open>time.Duration(f)\<close> of a \<open>float64\<close> truncates toward zero. When the
  result does not fit in an \<open>int64\<close> the language leaves the value to the implementation:
  \<open>oor\<close> (out of range) is that value, a parameter. On amd64 it is \<open>- 2 ^ 63\<close>.
\<close>

definition f64_to_int64 :: "(rat \<Rightarrow> int) \<Rightarrow> rat \<Rightarrow> int" where
  "f64_to_int64 oor x =
     (let t = trunc_toward_zero x in
      if - 9223372036854775808 \<le> t \<and> t < 9223372036854775808 then t else oor x)"

text \<open>\<open>math.Pow(2, float64(attempt))\<close>: exact, and 0 below the smallest subnormal.\<close>

definition math_Pow2 :: "int \<Rightarrow> rat" where
  "math_Pow2 a = (if a < - 1074 then 0 else 2 powi a)"

text \<open>\<open>r\<close> is the value returned by \<open>rand.Float64()\<close>, a number in \<open>[0, 1)\<close>.\<close>

definition computeBackoff :: "(rat \<Rightarrow> int) \<Rightarrow> rat \<Rightarrow> int \<Rightarrow> int \<Rightarrow> int" where
  "computeBackoff oor r base attempt =
     (let base = (if base \<le> 0 then 100 * Millisecond else base);
          attempt = (if 10 < attempt then 10 else attempt);
          multiplier = math_Pow2 attempt;
          exponentialBackoff = f64_round (f64_round (of_int base) * multiplier);
          maxBackoff = f64_to_int64 oor exponentialBackoff;
          maxBackoff = (if 60 * Second < maxBackoff then 60 * Second else maxBackoff);
          jitteredBackoff = f64_to_int64 oor (f64_round (r * f64_round (of_int maxBackoff)))
      in jitteredBackoff)"

subsection \<open>Status classification and Retry-After\<close>

definition shouldRetryStatus :: "int \<Rightarrow> bool" where
  "shouldRetryStatus status =
     (if status = 0 then True
      else if status = 429 then True
      else if status = 408 then True
      else if 500 \<le> status \<and> status \<le> 599 then True
      else False)"

text \<open>
  \<open>strconv.Atoi\<close>: an optional sign, then one or more decimal digits, and a value that
  fits in an \<open>int\<close>; anything else is an error.
\<close>

definition digit_val :: "char \<Rightarrow> int option" where
  "digit_val c = map_of (zip ''0123456789'' [0, 1, 2, 3, 4, 5, 6, 7, 8, 9]) c"

fun parse_digits :: "int \<Rightarrow> string \<Rightarrow> int option" where
  "parse_digits n [] = Some n"
| "parse_digits n (c # cs) =
     (case digit_val c of
        None \<Rightarrow> None
      | Some d \<Rightarrow> parse_digits (n * 10 + d) cs)"

definition Atoi :: "string \<Rightarrow> int option" where
  "Atoi s =
     (case (case s of
              [] \<Rightarrow> (False, [])
            | c # rest \<Rightarrow> if c = CHR ''-'' then (True, rest)
                          else if c = CHR ''+'' then (False, rest)
                          else (False, s)) of
        (neg, ds) \<Rightarrow>
          if ds = [] then None
          else (case parse_digits 0 ds of
                  None \<Rightarrow> None
                | Some n \<Rightarrow>
                    (let v = (if neg then - n else n) in
                     if v < - 9223372036854775808 \<or> 9223372036854775807 < v then None
                     else Some v)))"

text \<open>\<open>time.Until(t)\<close> is \<open>t.Sub(time.Now())\<close>, which saturates at the ends of \<open>int64\<close>.\<close>

definition Until :: "int \<Rightarrow> int \<Rightarrow> int" where
  "Until now t = max (- 9223372036854775808) (min 9223372036854775807 (t - now))"

text \<open>
  A response as the engine sees it: the status, the value of \<open>Header.Get("Retry-After")\<close>
  (empty when the header is missing) and the body. A body is a number of bytes not yet
  read and a flag set by \<open>Close\<close>; a body is drained when no byte is left unread.
\<close>

record body =
  unread :: nat
  closed :: bool

record response =
  StatusCode :: int
  RetryAfter :: string
  Body :: "body option"

text \<open>
  \<open>http.ParseTime\<close> (library code) is the parameter \<open>ParseTime\<close>: the instant a date
  denotes, in nanoseconds, or no result.
\<close>

definition parseRetryAfter :: "(string \<Rightarrow> int option) \<Rightarrow> int \<Rightarrow> response option \<Rightarrow> int" where
  "parseRetryAfter ParseTime now resp =
     (case resp of
        None \<Rightarrow> 0
      | Some r \<Rightarrow>
          (let retryAfter = RetryAfter r in
           if retryAfter = [] then 0
           else case (case Atoi (TrimSpace retryAfter) of
                        None \<Rightarrow> None
                      | Some seconds \<Rightarrow>
                          if 0 < seconds
                            then Some ((if 5 * 60 < seconds then 5 * 60 else seconds) * Second)
                          else None) of
                  Some wait \<Rightarrow> wait
                | None \<Rightarrow>
                    (case ParseTime retryAfter of
                       None \<Rightarrow> 0
                     | Some t \<Rightarrow>
                         (let duration = Until now t in
                          if 0 < duration
                            then (if 5 * Minute < duration then 5 * Minute else duration)
                          else 0))))"

subsection \<open>The attempt loop\<close>

text \<open>
  What the environment contributes to one iteration: the value of \<open>ctx.Err()\<close> at its
  top, the result of \<open>do\<close>, the clock read by \<open>parseRetryAfter\<close>, the random draw of
  \<open>computeBackoff\<close>, and whether the context is done before the timer of the wait fires
  (with the error \<open>ctx.Err()\<close> then returns). An error returned by \<open>do\<close> carries the two
  verdicts the loop asks for: whether it is a context error (\<open>errors.Is\<close> with
  \<open>context.Canceled\<close> or \<open>context.DeadlineExceeded\<close>) and \<open>isTransientNetError\<close>.
\<close>

datatype ctx_error = Canceled | DeadlineExceeded

record do_error =
  err_text :: string
  is_context_error :: bool
  is_transient :: bool

record attempt_env =
  e_ctx_Err :: "ctx_error option"
  e_resp :: "response option"
  e_err :: "do_error option"
  e_now :: int
  e_rand :: rat
  e_ctx_Done :: "ctx_error option"

datatype last_error = LastDo do_error | LastStatus int

datatype retry_error =
    CtxError ctx_error
  | DoFailed do_error
  | MaxRetriesExceeded int "last_error option"

text \<open>
  The trace of an execution: every call of \<open>do\<close> (with the attempt number), every
  \<open>Close\<close> of a response body (with the attempt number and the body as \<open>Close\<close> leaves
  it) and every wait that is started (with its duration).
\<close>

datatype event = EvDo int | EvCloseBody int body | EvWait int

datatype step =
    Return "event list" "response option \<times> retry_error option"
  | Break "event list" last_error
  | Continue "event list" last_error

definition close_body :: "int \<Rightarrow> response option \<Rightarrow> event list" where
  "close_body attempt resp =
     (case resp of
        None \<Rightarrow> []
      | Some r \<Rightarrow> (case Body r of
                     None \<Rightarrow> []
                   | Some b \<Rightarrow> [EvCloseBody attempt (b\<lparr>closed := True\<rparr>)]))"

text \<open>The end of an iteration that will be retried: stop at the last attempt, else back off.\<close>

definition backoff_step ::
  "(rat \<Rightarrow> int) \<Rightarrow> int \<Rightarrow> int \<Rightarrow> int \<Rightarrow> attempt_env \<Rightarrow> event list \<Rightarrow> last_error \<Rightarrow> step" where
  "backoff_step oor base maxAttempts attempt env evs lastErr =
     (if attempt = maxAttempts - 1 then Break evs lastErr
      else (let backoff = computeBackoff oor (e_rand env) base attempt in
            case e_ctx_Done env of
              Some e \<Rightarrow> Return (evs @ [EvWait backoff]) (None, Some (CtxError e))
            | None \<Rightarrow> Continue (evs @ [EvWait backoff]) lastErr))"

definition retry_step ::
  "(rat \<Rightarrow> int) \<Rightarrow> (string \<Rightarrow> int option) \<Rightarrow> int \<Rightarrow> int \<Rightarrow> int \<Rightarrow> attempt_env \<Rightarrow> step" where
  "retry_step oor ParseTime base maxAttempts attempt env =
     (case e_ctx_Err env of
        Some e \<Rightarrow> Return [] (None, Some (CtxError e))
      | None \<Rightarrow>
          (let resp = e_resp env;
               status = (case resp of None \<Rightarrow> 0 | Some r \<Rightarrow> StatusCode r)
           in case e_err env of
                Some err \<Rightarrow>
                  if is_context_error err then Return [EvDo attempt] (None, Some (DoFailed err))
                  else if \<not> is_transient err then Return [EvDo attempt] (None, Some (DoFailed err))
                  else backoff_step oor base maxAttempts attempt env [EvDo attempt] (LastDo err)
              | None \<Rightarrow>
                  if \<not> shouldRetryStatus status then Return [EvDo attempt] (resp, None)
                  else (let retryAfter = parseRetryAfter ParseTime (e_now env) resp;
                            evs = EvDo attempt # close_body attempt resp
                        in if 0 < retryAfter \<and> attempt < maxAttempts - 1
                             then (case e_ctx_Done env of
                                     Some e \<Rightarrow>
                                       Return (evs @ [EvWait retryAfter]) (None, Some (CtxError e))
                                   | None \<Rightarrow> Continue (evs @ [EvWait retryAfter]) (LastStatus status))
                           else backoff_step oor base maxAttempts attempt env evs
                                  (LastStatus status))))"

function retry_loop ::
  "(rat \<Rightarrow> int) \<Rightarrow> (string \<Rightarrow> int option) \<Rightarrow> int \<Rightarrow> (int \<Rightarrow> attempt_env) \<Rightarrow> int \<Rightarrow> int
     \<Rightarrow> last_error option \<Rightarrow> event list \<times> response option \<times> retry_error option" where
  "retry_loop oor ParseTime base envs maxAttempts attempt lastErr =
     (if attempt < maxAttempts
        then (case retry_step oor ParseTime base maxAttempts attempt (envs attempt) of
                Return evs res \<Rightarrow> (evs, res)
              | Break evs l \<Rightarrow> (evs, None, Some (MaxRetriesExceeded maxAttempts (Some l)))
              | Continue evs l \<Rightarrow>
                  (case retry_loop oor ParseTime base envs maxAttempts (attempt + 1) (Some l) of
                     (evs', res) \<Rightarrow> (evs @ evs', res)))
      else ([], None, Some (MaxRetriesExceeded maxAttempts lastErr)))"
  by pat_completeness auto
termination
  by (relation "measure (\<lambda>(oor, ParseTime, base, envs, maxAttempts, attempt, lastErr).
                   nat (maxAttempts - attempt))") auto

declare retry_loop.simps [simp del]

definition doWithRetry ::
  "client \<Rightarrow> (rat \<Rightarrow> int) \<Rightarrow> (string \<Rightarrow> int option) \<Rightarrow> (int \<Rightarrow> attempt_env)
     \<Rightarrow> event list \<times> response option \<times> retry_error option" where
  "doWithRetry c oor ParseTime envs =
     (let maxAttempts = sint (MaxRetries (cfg c) + 1);
          maxAttempts = (if maxAttempts < 1 then 1 else maxAttempts)
      in retry_loop oor ParseTime (BaseBackoff (cfg c)) envs maxAttempts 0 None)"

text \<open>The attempts of a trace, in order: the numbers of the calls of \<open>do\<close>.\<close>

fun attempts_of :: "event list \<Rightarrow> int list" where
  "attempts_of [] = []"
| "attempts_of (EvDo a # evs) = a # attempts_of evs"
| "attempts_of (EvCloseBody a b # evs) = attempts_of evs"
| "attempts_of (EvWait d # evs) = attempts_of evs"

text \<open>
  An iteration fails in a retryable way when the context is alive, \<open>do\<close> returns a
  transient network error or a response with a retryable status, and the wait that
  follows is not interrupted.
\<close>

definition retryable_failure :: "attempt_env \<Rightarrow> bool" where
  "retryable_failure env \<longleftrightarrow>
     e_ctx_Err env = None \<and> e_ctx_Done env = None \<and>
     (case e_err env of
        Some err \<Rightarrow> \<not> is_context_error err \<and> is_transient err
      | None \<Rightarrow> shouldRetryStatus (case e_resp env of None \<Rightarrow> 0 | Some r \<Rightarrow> StatusCode r))"

section \<open>The unary client: pre-flight checks of ChatCompletion\<close>

definition maxRequestSize :: nat where "maxRequestSize = 2 * 1024 * 1024"
definition maxMessageSize :: nat where "maxMessageSize = 512 * 1024"

datatype 'e client_error =
    RequestNil
  | InvalidRequest validate_error
  | MessageTooLarge nat nat
  | MarshalRequest marshal_error
  | RequestTooLarge nat
  | UpstreamFailure 'e

fun first_oversized :: "nat \<Rightarrow> ChatMessage list \<Rightarrow> (nat \<times> nat) option" where
  "first_oversized i [] = None"
| "first_oversized i (m # ms) =
     (if maxMessageSize < length (Content m) then Some (i, length (Content m))
      else first_oversized (Suc i) ms)"

text \<open>
  The checks made before anything is sent: the request is not \<open>nil\<close>, \<open>Validate\<close>
  accepts it, no message content exceeds 512 KiB, the provider request can be marshalled
  and its body does not exceed 2 MiB. The result is the body to send.
\<close>

definition ChatCompletion_preflight ::
  "json_enc \<Rightarrow> ChatRequest option \<Rightarrow> 'e client_error + string" where
  "ChatCompletion_preflight E req =
     (case req of
        None \<Rightarrow> Inl RequestNil
      | Some r \<Rightarrow>
          (case Validate r of
             Some e \<Rightarrow> Inl (InvalidRequest e)
           | None \<Rightarrow>
               (case first_oversized 0 (elems (Messages r)) of
                  Some (i, n) \<Rightarrow> Inl (MessageTooLarge i n)
                | None \<Rightarrow>
                    (case marshal_providerChatRequest E (provider_request False r) of
                       Inl e \<Rightarrow> Inl (MarshalRequest e)
                     | Inr bodyBytes \<Rightarrow>
                         if maxRequestSize < length bodyBytes
                           then Inl (RequestTooLarge (length bodyBytes))
                         else Inr bodyBytes))))"

section \<open>The chat handler (package handlers, chat.go)\<close>

text \<open>
  What the handler does that can be observed: the lookups and stores it asks of the
  cache, its call of the client, and the exchange of the client with the upstream (the
  retry loop around the HTTP request, entered only after the pre-flight checks).
\<close>

datatype handler_event =
    CacheGet string
  | LLMCall
  | UpstreamExchange string
  | CacheSet string string int

text \<open>
  \<open>client.ChatCompletion\<close>: the pre-flight checks, then the exchange with the upstream
  and the decoding of its answer, which is the parameter \<open>exchange\<close>.
\<close>

definition client_ChatCompletion ::
  "json_enc \<Rightarrow> (string \<Rightarrow> 'e client_error + 'r) \<Rightarrow> ChatRequest option
     \<Rightarrow> handler_event list \<times> ('e client_error + 'r)" where
  "client_ChatCompletion E exchange req =
     (case ChatCompletion_preflight E req of
        Inl e \<Rightarrow> ([], Inl e)
      | Inr bodyBytes \<Rightarrow> ([UpstreamExchange bodyBytes], exchange bodyBytes))"

text \<open>
  The reply of the handler: \<open>writeErrorJSON\<close> with a status and an error code,
  \<open>writeJSON\<close> of a response (status 200), or the streaming path, which is not modelled
  further.
\<close>

datatype 'r reply = ErrorJSON nat string | JSON 'r | Streaming

record ChatHandler =
  h_CacheTTL :: int
  h_VersionID :: string

record inbound =
  decoded_body :: "ChatRequest_body option"
  X_User_ID :: string

text \<open>
  The dependencies of the handler are parameters: the encoders and the hash of the key
  builder, the cache behind the \<open>ExactCache\<close> interface (\<open>cache_Get\<close> is what a lookup
  returns: bytes, hit, error), \<open>json.Unmarshal\<close> and \<open>json.Marshal\<close> of a \<open>ChatResponse\<close>,
  and the exchange of the client with the upstream. \<open>decoded_body\<close> is \<open>None\<close> when
  \<open>Decode\<close> returns an error.
\<close>

definition handler_ChatCompletion ::
  "json_enc \<Rightarrow> (string \<Rightarrow> 256 word) \<Rightarrow> (string \<Rightarrow> string option \<times> bool \<times> cache_error option)
     \<Rightarrow> (string \<Rightarrow> 'r option) \<Rightarrow> ('r \<Rightarrow> string option) \<Rightarrow> (string \<Rightarrow> 'e client_error + 'r)
     \<Rightarrow> ChatHandler \<Rightarrow> inbound \<Rightarrow> handler_event list \<times> 'r reply" where
  "handler_ChatCompletion E Sum256 cache_Get Unmarshal Marshal exchange h rq =
     (case decoded_body rq of
        None \<Rightarrow> ([], ErrorJSON 400 ''invalid_json'')
      | Some b \<Rightarrow>
          (let req = Decode b;
               userID = (if X_User_ID rq = [] then ''anon'' else X_User_ID rq);
               versionID = (if h_VersionID h = [] then ''v1'' else h_VersionID h)
           in if Stream req then ([], Streaming)
              else
                (case (case BuildExactCacheKeyFromChatRequest E Sum256 req userID versionID of
                         Inl err \<Rightarrow> ([], [], None)
                       | Inr key \<Rightarrow>
                           (let cacheKey = key_String key in
                            case cache_Get cacheKey of
                              (cachedBytes, hit, cacheErr) \<Rightarrow>
                                (cacheKey, [CacheGet cacheKey],
                                 if hit
                                   then Unmarshal (case cachedBytes of None \<Rightarrow> [] | Some bs \<Rightarrow> bs)
                                 else None))) of
                   (cacheKey, lookup, cached) \<Rightarrow>
                     (case cached of
                        Some cachedResp \<Rightarrow> (lookup, JSON cachedResp)
                      | None \<Rightarrow>
                          (case client_ChatCompletion E exchange (Some req) of
                             (evs, Inl err) \<Rightarrow>
                               (lookup @ [LLMCall] @ evs, ErrorJSON 502 ''upstream_error'')
                           | (evs, Inr resp) \<Rightarrow>
                               (lookup @ [LLMCall] @ evs @
                                  (if cacheKey \<noteq> []
                                     then (case Marshal resp of
                                             None \<Rightarrow> []
                                           | Some respBytes \<Rightarrow>
                                               [CacheSet cacheKey respBytes (h_CacheTTL h)])
                                   else []),
                                JSON resp))))))"

section \<open>The key parser of the logging decorator (package cache, exact_logging.go)\<close>

text \<open>
  \<open>LoggingExactCache\<close> wraps a cache and, on every \<open>Get\<close> and \<open>Set\<close>, parses the key
  it is given with \<open>parseExactKey\<close>, whose comment reads
  \<open>Expecting: exact:<USER_ID>:<MODEL_ID>:<VERSION_ID>:<HASH>\<close>. \<open>None\<close> is the result
  \<open>(exactKeyParts{}, false)\<close>.
\<close>

record exactKeyParts =
  kp_userID :: string
  kp_modelID :: string
  kp_versionID :: string
  kp_hash :: string

definition parseExactKey :: "string \<Rightarrow> exactKeyParts option" where
  "parseExactKey key =
     (let parts = split_on CHR '':'' key in
      if length parts \<noteq> 5 then None
      else if parts ! 0 \<noteq> ''exact'' then None
      else Some \<lparr>kp_userID = parts ! 1, kp_modelID = parts ! 2, kp_versionID = parts ! 3,
                  kp_hash = parts ! 4\<rparr>)"

section \<open>Validation: what is accepted\<close>

lemma validate_messages_None:
  "validate_messages i ms = None \<longleftrightarrow>
     list_all (\<lambda>m. (Role m = RoleSystem \<or> Role m = RoleUser \<or> Role m = RoleAssistant) \<and>
                   (Content m \<noteq> [] \<or> Role m = RoleSystem)) ms"
  by (induction ms arbitrary: i) auto

lemma f32_not_below_above:
  "\<not> f32_lt x (Fin lo) \<and> \<not> f32_lt (Fin hi) x \<longleftrightarrow> f32_between lo hi x \<or> x = NaN"
  by (cases x) (auto simp: f32_between_def)

text \<open>
  C8 (as stated in the specification). \<open>Validate\<close> would accept a request if and only
  if every field is in the range of the data model. Two requests show that it does not:
  a model made of blanks only is accepted although it is empty after trimming, and a
  negative \<open>max_tokens\<close> is accepted.
\<close>

theorem C8_validate_counterexample:
  "Validate \<lparr>Model = ''  '', Messages = Some [\<lparr>Role = ''user'', Content = ''x''\<rparr>],
             Temperature = Fin 0, TopP = Fin 0, MaxTokens = 0, Stop = None, Stream = False\<rparr> = None
   \<and> \<not> spec_fields_in_range
         \<lparr>Model = ''  '', Messages = Some [\<lparr>Role = ''user'', Content = ''x''\<rparr>],
          Temperature = Fin 0, TopP = Fin 0, MaxTokens = 0, Stop = None, Stream = False\<rparr>
   \<and> Validate \<lparr>Model = ''gpt-4'', Messages = Some [\<lparr>Role = ''user'', Content = ''x''\<rparr>],
             Temperature = Fin 0, TopP = Fin 0, MaxTokens = - 5, Stop = None, Stream = False\<rparr> = None
   \<and> \<not> spec_fields_in_range
         \<lparr>Model = ''gpt-4'', Messages = Some [\<lparr>Role = ''user'', Content = ''x''\<rparr>],
          Temperature = Fin 0, TopP = Fin 0, MaxTokens = - 5, Stop = None, Stream = False\<rparr>"
  by code_simp

text \<open>
  C8 (amended). \<open>Validate\<close> accepts a request if and only if: the model is a non-empty
  string (it is not trimmed), there is at least one message, every role is one of system,
  user, assistant, every content is non-empty unless the role is system, the temperature
  is in [0,2] and top_p is in [0,1] (a NaN, which no JSON body decodes to, passes both
  comparisons). \<open>max_tokens\<close>, \<open>stop\<close> and \<open>stream\<close> are not examined.
\<close>

theorem C8_validate_accepts_iff:
  "Validate r = None \<longleftrightarrow>
     Model r \<noteq> [] \<and>
     elems (Messages r) \<noteq> [] \<and>
     (\<forall>m \<in> set (elems (Messages r)).
        (Role m = RoleSystem \<or> Role m = RoleUser \<or> Role m = RoleAssistant) \<and>
        (Content m \<noteq> [] \<or> Role m = RoleSystem)) \<and>
     (f32_between 0 2 (Temperature r) \<or> Temperature r = NaN) \<and>
     (f32_between 0 1 (TopP r) \<or> TopP r = NaN)"
proof -
  have msgs: "validate_messages 0 (elems (Messages r)) = None \<longleftrightarrow>
      (\<forall>m \<in> set (elems (Messages r)).
        (Role m = RoleSystem \<or> Role m = RoleUser \<or> Role m = RoleAssistant) \<and>
        (Content m \<noteq> [] \<or> Role m = RoleSystem))"
    by (simp add: validate_messages_None list_all_iff)
  have t: "\<not> f32_lt (Temperature r) (Fin 0) \<and> \<not> f32_lt (Fin 2) (Temperature r) \<longleftrightarrow>
      f32_between 0 2 (Temperature r) \<or> Temperature r = NaN"
    by (rule f32_not_below_above)
  have p: "\<not> f32_lt (TopP r) (Fin 0) \<and> \<not> f32_lt (Fin 1) (TopP r) \<longleftrightarrow>
      f32_between 0 1 (TopP r) \<or> TopP r = NaN"
    by (rule f32_not_below_above)
  show ?thesis
    unfolding Validate_def msgs [symmetric] t [symmetric] p [symmetric]
    by (auto split: option.splits)
qed

theorem C8_validate_accepts_iff_witness:
  "Validate \<lparr>Model = ''gpt-4'', Messages = Some [\<lparr>Role = ''system'', Content = []\<rparr>,
                                                  \<lparr>Role = ''user'', Content = ''hi''\<rparr>],
             Temperature = Fin 2, TopP = Fin 1, MaxTokens = 16, Stop = None, Stream = False\<rparr> = None
   \<and> Validate \<lparr>Model = ''gpt-4'', Messages = Some [\<lparr>Role = ''user'', Content = []\<rparr>],
             Temperature = Fin 2, TopP = Fin 1, MaxTokens = 16, Stop = None, Stream = False\<rparr> \<noteq> None"
  using C8_validate_accepts_iff
          [of "\<lparr>Model = ''gpt-4'', Messages = Some [\<lparr>Role = ''system'', Content = []\<rparr>,
                                                     \<lparr>Role = ''user'', Content = ''hi''\<rparr>],
                Temperature = Fin 2, TopP = Fin 1, MaxTokens = 16, Stop = None, Stream = False\<rparr>"]
        C8_validate_accepts_iff
          [of "\<lparr>Model = ''gpt-4'', Messages = Some [\<lparr>Role = ''user'', Content = []\<rparr>],
                Temperature = Fin 2, TopP = Fin 1, MaxTokens = 16, Stop = None, Stream = False\<rparr>"]
  by (simp add: elems_def RoleSystem_def RoleUser_def RoleAssistant_def f32_between_def)

section \<open>The in-process cache: a value is served until it expires\<close>

text \<open>
  C2. For every key, value and \<open>ttl > 0\<close>: after \<open>Set\<close> at instant \<open>t0\<close>, a \<open>Get\<close> of the
  same key at an instant \<open>t\<close> not later than \<open>t0 + ttl\<close> returns the stored bytes
  unchanged with \<open>hit = true\<close> and no error; a \<open>Get\<close> at an instant later than
  \<open>t0 + ttl\<close> returns \<open>hit = false\<close> (and \<open>nil\<close> bytes, no error).
\<close>

theorem C2_set_then_get:
  assumes "0 < ttl"
  shows "(t \<le> t0 + ttl \<longrightarrow>
            snd (mem_Get t (fst (mem_Set t0 c k v ttl)) k) = (Some v, True, None)) \<and>
         (t0 + ttl < t \<longrightarrow>
            snd (mem_Get t (fst (mem_Set t0 c k v ttl)) k) = (None, False, None))"
  using assms by (simp add: mem_Get_def mem_Set_def After_def)

theorem C2_set_then_get_witness:
  "(0::int) < 20 \<and>
   snd (mem_Get 15 (fst (mem_Set 0 Map.empty ''test:key'' ''hello'' 20)) ''test:key'')
     = (Some ''hello'', True, None) \<and>
   snd (mem_Get 30 (fst (mem_Set 0 Map.empty ''test:key'' ''hello'' 20)) ''test:key'')
     = (None, False, None)"
  using C2_set_then_get [of 20 15 0 Map.empty "''test:key''" "''hello''"]
        C2_set_then_get [of 20 30 0 Map.empty "''test:key''" "''hello''"]
  by simp

section \<open>The cache key: its wire format\<close>

lemma hex_digit_index: "unat (drop_bit 4 (b :: 8 word)) < 16" "unat (b AND 0x0F) < 16"
proof -
  have "unat (drop_bit 4 b) = unat b div 16"
    by (simp add: drop_bit_eq_div unat_div)
  moreover have "unat b < 256" using unsigned_less [of b, where ?'a = nat] by simp
  ultimately show "unat (drop_bit 4 (b :: 8 word)) < 16" by simp
  have "unat (b AND 0x0F) \<le> unat (0x0F :: 8 word)"
    by (rule word_and_le1 [THEN word_le_nat_alt [THEN iffD1]])
  then show "unat (b AND 0x0F) < 16" by simp
qed

lemma hextable_nth: "n < 16 \<Longrightarrow> hextable ! n \<in> set hextable"
  by (rule nth_mem) (simp add: hextable_def)

lemma hex_byte_props: "length (hex_byte b) = 2" "set (hex_byte b) \<subseteq> set hextable"
  using hex_digit_index [of b] by (simp_all add: hex_byte_def hextable_nth)

lemma length_concat_hex: "length (EncodeToString bs) = 2 * length bs"
  by (induction bs) (simp_all add: EncodeToString_def hex_byte_props)

lemma set_EncodeToString: "set (EncodeToString bs) \<subseteq> set hextable"
  using hex_byte_props(2) by (auto simp: EncodeToString_def)

lemma length_sum_bytes: "length (sum_bytes w) = 32"
  by (simp add: sum_bytes_def)

lemma length_split_on: "length (split_on c s) = Suc (count_list s c)"
  by (induction s) (auto split: list.splits)

lemma split_on_nonempty: "split_on c s \<noteq> []"
  by (induction s) (auto split: list.splits)

lemma colon_not_hex: "CHR '':'' \<notin> set hextable"
  by (simp add: hextable_def)

lemma count_list_hex: "set s \<subseteq> set hextable \<Longrightarrow> count_list s CHR '':'' = 0"
  using colon_not_hex by (metis count_list_0_iff subsetD)

text \<open>
  The format of the key. For every request whose temperature and top_p are finite (every
  request decoded from JSON is), and every user and version identifier, the key is built
  and its string form is \<open>exact:<user_id>:<model_id>:<version_id>:<hash>\<close>, the three
  identifiers trimmed; the hash is the hexadecimal form of the SHA-256 of
  \<open>"model:" + trimmed model + "|body:" + JSON of the request\<close>, exactly 64 characters, all
  of them lowercase hexadecimal digits. Splitting the string on the colon yields five
  fields plus one for every colon inside the trimmed identifiers.
\<close>

lemma key_format:
  assumes "\<not> unsupported (Temperature req)" and "\<not> unsupported (TopP req)"
  shows "\<exists>k body.
           BuildExactCacheKeyFromChatRequest E Sum256 req userID versionID = Inr k \<and>
           marshal_ChatRequest E req = Inr body \<and>
           key_String k = ''exact:'' @ TrimSpace userID @ '':'' @ TrimSpace (Model req) @ '':''
                            @ TrimSpace versionID @ '':'' @ Hash k \<and>
           Hash k = EncodeToString
                      (sum_bytes (Sum256 (''model:'' @ TrimSpace (Model req) @ ''|body:'' @ body))) \<and>
           length (Hash k) = 64 \<and>
           set (Hash k) \<subseteq> set ''0123456789abcdef'' \<and>
           length (split_on CHR '':'' (key_String k)) =
             5 + count_list (TrimSpace userID) CHR '':''
               + count_list (TrimSpace (Model req)) CHR '':''
               + count_list (TrimSpace versionID) CHR '':''"
proof -
  obtain body where body: "marshal_ChatRequest E req = Inr body"
    using assms by (simp add: marshal_ChatRequest_def marshal_request_def)
  define h where "h = EncodeToString
      (sum_bytes (Sum256 (''model:'' @ TrimSpace (Model req) @ ''|body:'' @ body)))"
  define k where "k = \<lparr>UserID = TrimSpace userID, ModelID = TrimSpace (Model req),
      VersionID = TrimSpace versionID, Hash = h\<rparr>"
  have build: "BuildExactCacheKeyFromChatRequest E Sum256 req userID versionID = Inr k"
    by (simp add: BuildExactCacheKeyFromChatRequest_def body k_def h_def Let_def)
  have hash: "Hash k = EncodeToString
      (sum_bytes (Sum256 (''model:'' @ TrimSpace (Model req) @ ''|body:'' @ body)))"
    by (simp add: k_def h_def)
  have len: "length (Hash k) = 64"
    by (simp add: hash length_concat_hex length_sum_bytes)
  have "set (Hash k) \<subseteq> set hextable"
    unfolding hash by (rule set_EncodeToString)
  then have nocolon: "count_list (Hash k) CHR '':'' = 0"
    and hex: "set (Hash k) \<subseteq> set ''0123456789abcdef''"
    by (simp_all add: count_list_hex hextable_def)
  have str: "key_String k = ''exact:'' @ TrimSpace userID @ '':'' @ TrimSpace (Model req) @ '':''
                            @ TrimSpace versionID @ '':'' @ Hash k"
    by (simp add: key_String_def k_def)
  have fields: "length (split_on CHR '':'' (key_String k)) =
             5 + count_list (TrimSpace userID) CHR '':''
               + count_list (TrimSpace (Model req)) CHR '':''
               + count_list (TrimSpace versionID) CHR '':''"
    unfolding str length_split_on using nocolon by simp
  from build body str hash len hex fields show ?thesis
    by blast
qed

lemma key_format_example:
  "\<not> unsupported (Fin 0) \<and>
   (\<exists>k. BuildExactCacheKeyFromChatRequest
        \<lparr>enc_string = (\<lambda>s. [CHR 0x22] @ s @ [CHR 0x22]), enc_float = (\<lambda>q. ''0.5''),
         enc_int = (\<lambda>i. ''7'')\<rparr>
        (\<lambda>s. 0)
        \<lparr>Model = '' gpt-4'', Messages = Some [\<lparr>Role = ''user'', Content = ''hi''\<rparr>],
         Temperature = Fin 0, TopP = Fin 0, MaxTokens = 0, Stop = None, Stream = False\<rparr>
        ''user-42 '' ''vtest'' = Inr k \<and>
      length (Hash k) = 64 \<and>
      length (split_on CHR '':'' (key_String k)) = 5)"
proof -
  have fin: "\<not> unsupported (Fin 0)"
    by (simp add: unsupported_def)
  have cnt: "count_list (TrimSpace ''user-42 '') CHR '':'' = 0"
    "count_list (TrimSpace '' gpt-4'') CHR '':'' = 0"
    "count_list (TrimSpace ''vtest'') CHR '':'' = 0"
    by code_simp+
  from key_format
         [where req = "\<lparr>Model = '' gpt-4'', Messages = Some [\<lparr>Role = ''user'', Content = ''hi''\<rparr>],
            Temperature = Fin 0, TopP = Fin 0, MaxTokens = 0, Stop = None, Stream = False\<rparr>"
           and E = "\<lparr>enc_string = (\<lambda>s. [CHR 0x22] @ s @ [CHR 0x22]), enc_float = (\<lambda>q. ''0.5''),
            enc_int = (\<lambda>i. ''7'')\<rparr>"
           and ?Sum256.0 = "\<lambda>s. 0" and userID = "''user-42 ''" and versionID = "''vtest''"]
       fin cnt
  show ?thesis by auto
qed

text \<open>
  When no identifier contains a colon, the parser of the logging decorator recovers the
  four parts of the key.
\<close>

lemma split_on_no_sep: "c \<notin> set xs \<Longrightarrow> split_on c xs = [xs]"
  by (induction xs) auto

lemma split_on_append: "c \<notin> set xs \<Longrightarrow> split_on c (xs @ c # ys) = xs # split_on c ys"
  by (induction xs) auto

lemma parseExactKey_colon_free:
  assumes "CHR '':'' \<notin> set (UserID k)" and "CHR '':'' \<notin> set (ModelID k)"
    and "CHR '':'' \<notin> set (VersionID k)" and "CHR '':'' \<notin> set (Hash k)"
  shows "parseExactKey (key_String k) =
           Some \<lparr>kp_userID = UserID k, kp_modelID = ModelID k, kp_versionID = VersionID k,
                  kp_hash = Hash k\<rparr>"
proof -
  have e: "CHR '':'' \<notin> set ''exact''"
    by simp
  have 1: "split_on CHR '':'' (Hash k) = [Hash k]"
    using assms(4) by (rule split_on_no_sep)
  have 2: "split_on CHR '':'' (VersionID k @ CHR '':'' # Hash k) = [VersionID k, Hash k]"
    using split_on_append [OF assms(3)] 1 by simp
  have 3: "split_on CHR '':'' (ModelID k @ CHR '':'' # (VersionID k @ CHR '':'' # Hash k))
      = [ModelID k, VersionID k, Hash k]"
    using split_on_append [OF assms(2)] 2 by simp
  have 4: "split_on CHR '':'' (UserID k @ CHR '':'' # (ModelID k @ CHR '':'' #
        (VersionID k @ CHR '':'' # Hash k))) = [UserID k, ModelID k, VersionID k, Hash k]"
    using split_on_append [OF assms(1)] 3 by simp
  have 5: "split_on CHR '':'' (''exact'' @ CHR '':'' # (UserID k @ CHR '':'' # (ModelID k @ CHR '':'' #
        (VersionID k @ CHR '':'' # Hash k)))) = [''exact'', UserID k, ModelID k, VersionID k, Hash k]"
    using split_on_append [OF e] 4 by simp
  have "key_String k = ''exact'' @ CHR '':'' # (UserID k @ CHR '':'' # (ModelID k @ CHR '':'' #
          (VersionID k @ CHR '':'' # Hash k)))"
    by (simp add: key_String_def)
  with 5 have "split_on CHR '':'' (key_String k) =
      [''exact'', UserID k, ModelID k, VersionID k, Hash k]"
    by simp
  then show ?thesis
    by (simp add: parseExactKey_def)
qed

text \<open>
  C7. The claim: for every request, user and version identifier, splitting the string
  form of the built key on \<open>:\<close> yields exactly five fields. The builder copies the
  identifiers into the key as they are. For the fine-tuned model name \<open>ft:gpt-4\<close> it
  builds a key with six fields, which \<open>parseExactKey\<close> of the same package, written for
  \<open>exact:<USER_ID>:<MODEL_ID>:<VERSION_ID>:<HASH>\<close>, refuses. (The encoders and the hash
  function are instantiated with arbitrary functions; the count does not depend on
  them.)
\<close>

theorem C7_key_six_fields:
  "map_sum id (\<lambda>k. (key_String k, length (split_on CHR '':'' (key_String k)),
                     parseExactKey (key_String k)))
     (BuildExactCacheKeyFromChatRequest
        \<lparr>enc_string = (\<lambda>s. [CHR 0x22] @ s @ [CHR 0x22]), enc_float = (\<lambda>q. ''0.5''),
         enc_int = (\<lambda>i. ''7'')\<rparr>
        (\<lambda>s. 0)
        \<lparr>Model = ''ft:gpt-4'', Messages = Some [\<lparr>Role = ''user'', Content = ''hi''\<rparr>],
         Temperature = Fin 0, TopP = Fin 0, MaxTokens = 0, Stop = None, Stream = False\<rparr>
        ''user-42'' ''v1'')
   = Inr (''exact:user-42:ft:gpt-4:v1:0000000000000000000000000000000000000000000000000000000000000000'',
          6, None)"
  by code_simp

section \<open>Zero values and \<open>omitempty\<close>\<close>

lemma member_keys:
  "fst ` set (request_members E model msgs t p n stop stream) =
     {''model'', ''messages''}
     \<union> (if t = Fin 0 then {} else {''temperature''})
     \<union> (if p = Fin 0 then {} else {''top_p''})
     \<union> (if n = 0 then {} else {''max_tokens''})
     \<union> (if elems stop = [] then {} else {''stop''})
     \<union> (if stream then {''stream''} else {})"
  by (auto simp: request_members_def omitempty_def)

lemma Decode_temperature_zero:
  "Decode (b\<lparr>b_temperature := Some (Fin 0)\<rparr>) = Decode (b\<lparr>b_temperature := None\<rparr>)"
  by (simp add: Decode_def)

lemma Decode_top_p_zero:
  "Decode (b\<lparr>b_top_p := Some (Fin 0)\<rparr>) = Decode (b\<lparr>b_top_p := None\<rparr>)"
  by (simp add: Decode_def)

lemma Decode_max_tokens_zero:
  "Decode (b\<lparr>b_max_tokens := Some 0\<rparr>) = Decode (b\<lparr>b_max_tokens := None\<rparr>)"
  by (simp add: Decode_def)

lemma Decode_stream_false:
  "Decode (b\<lparr>b_stream := Some False\<rparr>) = Decode (b\<lparr>b_stream := None\<rparr>)"
  by (simp add: Decode_def)

lemma Decode_fields [simp]:
  "Temperature (Decode (b\<lparr>b_temperature := Some t\<rparr>)) = t"
  "TopP (Decode (b\<lparr>b_top_p := Some t\<rparr>)) = t"
  "MaxTokens (Decode (b\<lparr>b_max_tokens := Some n\<rparr>)) = n"
  "Stream (Decode (b\<lparr>b_stream := Some s\<rparr>)) = s"
  by (simp_all add: Decode_def)

text \<open>
  C9. A body that carries \<open>temperature = 0\<close> and the same body without the key decode to
  the same request, so the body sent upstream (unary or streaming), the bytes hashed for
  the cache key and the cache key itself are identical, and the serialization has no
  \<open>temperature\<close> member: the value 0 is never transmitted. Likewise for \<open>top_p = 0\<close>,
  \<open>max_tokens = 0\<close> and \<open>stream = false\<close>.
\<close>

theorem C9_zero_is_unset:
  fixes E :: json_enc and Sum256 :: "string \<Rightarrow> 256 word"
  shows
  "(let r0 = Decode (b\<lparr>b_temperature := Some (Fin 0)\<rparr>); rn = Decode (b\<lparr>b_temperature := None\<rparr>) in
      marshal_providerChatRequest E (provider_request s r0)
        = marshal_providerChatRequest E (provider_request s rn) \<and>
      marshal_ChatRequest E r0 = marshal_ChatRequest E rn \<and>
      BuildExactCacheKeyFromChatRequest E Sum256 r0 u v
        = BuildExactCacheKeyFromChatRequest E Sum256 rn u v \<and>
      ''temperature'' \<notin> fst ` set (members_providerChatRequest E (provider_request s r0)) \<and>
      ''temperature'' \<notin> fst ` set (members_ChatRequest E r0)) \<and>
   (let r0 = Decode (b\<lparr>b_top_p := Some (Fin 0)\<rparr>); rn = Decode (b\<lparr>b_top_p := None\<rparr>) in
      marshal_providerChatRequest E (provider_request s r0)
        = marshal_providerChatRequest E (provider_request s rn) \<and>
      marshal_ChatRequest E r0 = marshal_ChatRequest E rn \<and>
      BuildExactCacheKeyFromChatRequest E Sum256 r0 u v
        = BuildExactCacheKeyFromChatRequest E Sum256 rn u v \<and>
      ''top_p'' \<notin> fst ` set (members_providerChatRequest E (provider_request s r0)) \<and>
      ''top_p'' \<notin> fst ` set (members_ChatRequest E r0)) \<and>
   (let r0 = Decode (b\<lparr>b_max_tokens := Some 0\<rparr>); rn = Decode (b\<lparr>b_max_tokens := None\<rparr>) in
      marshal_providerChatRequest E (provider_request s r0)
        = marshal_providerChatRequest E (provider_request s rn) \<and>
      marshal_ChatRequest E r0 = marshal_ChatRequest E rn \<and>
      BuildExactCacheKeyFromChatRequest E Sum256 r0 u v
        = BuildExactCacheKeyFromChatRequest E Sum256 rn u v \<and>
      ''max_tokens'' \<notin> fst ` set (members_providerChatRequest E (provider_request s r0)) \<and>
      ''max_tokens'' \<notin> fst ` set (members_ChatRequest E r0)) \<and>
   (let r0 = Decode (b\<lparr>b_stream := Some False\<rparr>); rn = Decode (b\<lparr>b_stream := None\<rparr>) in
      marshal_providerChatRequest E (provider_request s r0)
        = marshal_providerChatRequest E (provider_request s rn) \<and>
      marshal_ChatRequest E r0 = marshal_ChatRequest E rn \<and>
      BuildExactCacheKeyFromChatRequest E Sum256 r0 u v
        = BuildExactCacheKeyFromChatRequest E Sum256 rn u v \<and>
      ''stream'' \<notin> fst ` set (members_providerChatRequest E (provider_request False r0)) \<and>
      ''stream'' \<notin> fst ` set (members_ChatRequest E r0))"
  unfolding Let_def Decode_temperature_zero Decode_top_p_zero Decode_max_tokens_zero
    Decode_stream_false
  by (simp add: members_providerChatRequest_def members_ChatRequest_def member_keys
      provider_request_def Decode_def)

theorem C9_zero_is_unset_witness:
  "map fst (members_providerChatRequest
        \<lparr>enc_string = (\<lambda>s. [CHR 0x22] @ s @ [CHR 0x22]), enc_float = (\<lambda>q. ''0.5''),
         enc_int = (\<lambda>i. ''7'')\<rparr>
       (provider_request False
          (Decode \<lparr>b_model = Some ''gpt-4'', b_messages = Some [\<lparr>Role = ''user'', Content = ''hi''\<rparr>],
                  b_temperature = Some (Fin 0), b_top_p = Some (Fin 0), b_max_tokens = Some 0,
                  b_stop = None, b_stream = Some False\<rparr>)))
     = [''model'', ''messages'']"
  using C9_zero_is_unset
     [where E = "\<lparr>enc_string = (\<lambda>s. [CHR 0x22] @ s @ [CHR 0x22]), enc_float = (\<lambda>q. ''0.5''),
         enc_int = (\<lambda>i. ''7'')\<rparr>" and s = False and
         b = "\<lparr>b_model = Some ''gpt-4'', b_messages = Some [\<lparr>Role = ''user'', Content = ''hi''\<rparr>],
                  b_temperature = Some (Fin 0), b_top_p = Some (Fin 0), b_max_tokens = Some 0,
                  b_stop = None, b_stream = Some False\<rparr>" and ?Sum256.0 = "\<lambda>s. 0" and u = "''u''" and v = "''v''"]
  by code_simp

section \<open>The SSE decoder\<close>

lemma emit_choices_never:
  "emit_choices never n cs =
     (map chunk_result (filter (\<lambda>c. c_Content c \<noteq> [] \<or> c_FinishReason c \<noteq> []) cs),
      n + length (filter (\<lambda>c. c_Content c \<noteq> [] \<or> c_FinishReason c \<noteq> []) cs), False)"
  by (induction cs arbitrary: n) (auto simp: never_def)

lemma read_loop_never_counter:
  "read_loop U never n rs = read_loop U never m rs"
proof (induction rs arbitrary: n m)
  case Nil
  show ?case by simp
next
  case (Cons r rs)
  note IH = Cons.IH
  show ?case
  proof (cases r)
    case (ReadOk raw)
    have a: "read_loop U never (Suc n) rs = read_loop U never (Suc m) rs"
      by (rule IH)
    have b: "\<And>k j. read_loop U never (Suc n + k) rs = read_loop U never (Suc m + j) rs"
      by (rule IH)
    show ?thesis
      using a b by (simp add: ReadOk never_def [of n] never_def [of m] Let_def emit_choices_never
          split: sum.splits)
  next
    case (ReadEOF p)
    then show ?thesis by (simp add: never_def)
  next
    case (ReadFail p e)
    then show ?thesis by (simp add: never_def)
  qed
qed

lemma emit_choices_prefix:
  "emit_choices dn n cs = (out, n', cancelled) \<Longrightarrow>
     prefix out (map chunk_result (filter (\<lambda>c. c_Content c \<noteq> [] \<or> c_FinishReason c \<noteq> []) cs)) \<and>
     (\<not> cancelled \<longrightarrow>
        out = map chunk_result (filter (\<lambda>c. c_Content c \<noteq> [] \<or> c_FinishReason c \<noteq> []) cs))"
  by (induction cs arbitrary: n out n' cancelled) (auto split: if_splits prod.splits)

lemma read_loop_cancel_prefix:
  "prefix (read_loop U dn n rs) (read_loop U never m rs)"
proof (induction rs arbitrary: n m)
  case Nil
  show ?case by simp
next
  case (Cons r rs)
  show ?case
  proof (cases "dn n")
    case True
    then show ?thesis by simp
  next
    case False
    show ?thesis
    proof (cases r)
      case (ReadOk raw)
      show ?thesis
        using Cons.IH False
        by (auto simp: ReadOk never_def [of m] Let_def emit_choices_never
            split: sum.splits prod.splits dest!: emit_choices_prefix)
    next
      case (ReadEOF p)
      then show ?thesis using False by (simp add: never_def)
    next
      case (ReadFail p e)
      then show ?thesis using False by (simp add: never_def)
    qed
  qed
qed

text \<open>
  C3. With a context that is not cancelled, for every sequence of read results, whatever
  the number of context consultations made so far: a line whose trimmed form does not
  start with \<open>data: \<close> is skipped (this covers blank lines); on a \<open>[DONE]\<close> payload, on EOF
  and at the end of the body the output ends normally, with nothing more emitted; for a
  payload that parses, every choice with a non-empty content or a non-empty finish reason
  is emitted as \<open>StreamChunk{index, delta = content, finish_reason}\<close>, in order, every
  other choice is skipped, and decoding goes on with the next line; on a read error other
  than EOF exactly one \<open>err\<close> result is emitted and the output ends. (By
  \<open>read_loop_cancel_prefix\<close>, a cancellation cuts this output short and adds nothing.)
\<close>

theorem C3_sse_decoder:
  "(\<not> prefix ''data: '' (TrimSpace raw) \<longrightarrow>
      read_loop U never n (ReadOk raw # rs) = read_loop U never m rs) \<and>
   (prefix ''data: '' (TrimSpace raw) \<and> TrimSpace (drop 6 (TrimSpace raw)) = ''[DONE]'' \<longrightarrow>
      read_loop U never n (ReadOk raw # rs) = []) \<and>
   read_loop U never n (ReadEOF partial # rs) = [] \<and>
   read_loop U never n [] = [] \<and>
   (prefix ''data: '' (TrimSpace raw) \<and> TrimSpace (drop 6 (TrimSpace raw)) \<noteq> ''[DONE]'' \<and>
    U (TrimSpace (drop 6 (TrimSpace raw))) = Inr chunk \<longrightarrow>
      read_loop U never n (ReadOk raw # rs) =
        map (\<lambda>c. \<lparr>Chunk = Some \<lparr>Index = c_Index c, Delta = c_Content c,
                                  FinishReason = c_FinishReason c\<rparr>, Err = None\<rparr>)
            (filter (\<lambda>c. c_Content c \<noteq> [] \<or> c_FinishReason c \<noteq> []) (sc_Choices chunk))
        @ read_loop U never m rs) \<and>
   read_loop U never n (ReadFail partial e # rs) = [\<lparr>Chunk = None, Err = Some (ReadStreamLine e)\<rparr>]"
proof -
  have skip: "\<not> prefix ''data: '' (TrimSpace raw) \<Longrightarrow>
      read_loop U never n (ReadOk raw # rs) = read_loop U never m rs"
    using read_loop_never_counter [of U "Suc n" rs m] by (simp add: never_def [of n] Let_def)
  have dn: "prefix ''data: '' (TrimSpace raw) \<Longrightarrow> TrimSpace (drop 6 (TrimSpace raw)) = ''[DONE]'' \<Longrightarrow>
      read_loop U never n (ReadOk raw # rs) = []"
    by (auto simp add: never_def [of n] Let_def eval_nat_numeral)
  have eof: "read_loop U never n (ReadEOF partial # rs) = []"
    by (simp add: never_def)
  have emit: "prefix ''data: '' (TrimSpace raw) \<Longrightarrow> TrimSpace (drop 6 (TrimSpace raw)) \<noteq> ''[DONE]'' \<Longrightarrow>
    U (TrimSpace (drop 6 (TrimSpace raw))) = Inr chunk \<Longrightarrow>
      read_loop U never n (ReadOk raw # rs) =
        map chunk_result
            (filter (\<lambda>c. c_Content c \<noteq> [] \<or> c_FinishReason c \<noteq> []) (sc_Choices chunk))
        @ read_loop U never m rs"
    using read_loop_never_counter [of U _ rs m]
    by (auto simp add: never_def [of n] Let_def emit_choices_never eval_nat_numeral)
  have fail: "read_loop U never n (ReadFail partial e # rs) = [\<lparr>Chunk = None, Err = Some (ReadStreamLine e)\<rparr>]"
    by (simp add: never_def err_result_def)
  have cr: "chunk_result = (\<lambda>c. \<lparr>Chunk = Some \<lparr>Index = c_Index c, Delta = c_Content c,
                                  FinishReason = c_FinishReason c\<rparr>, Err = None\<rparr>)"
    by (rule ext) (simp add: chunk_result_def)
  show ?thesis
    using skip dn eof emit fail unfolding cr by simp
qed

theorem C3_sse_decoder_witness:
  \<open>prefix ''data: '' (TrimSpace (''data: {"choices":[{"index":0,"delta":{"content":"lo"},"finish_reason":"stop"}]}'' @ [CHR 0x0A])) \<and>
   read_loop
     (\<lambda>p. if p = ''{"choices":[{"index":0,"delta":{"content":"lo"},"finish_reason":"stop"}]}''
          then Inr \<lparr>sc_ID = [], sc_Object = [], sc_Created = 0, sc_Model = [],
                    sc_Choices = [\<lparr>c_Index = 0, c_Role = [], c_Content = ''lo'',
                                   c_FinishReason = ''stop''\<rparr>,
                                  \<lparr>c_Index = 1, c_Role = ''assistant'', c_Content = [],
                                   c_FinishReason = []\<rparr>]\<rparr>
          else Inl ''invalid character'')
     never 0
     [ReadOk ('': keep-alive'' @ [CHR 0x0A]),
      ReadOk (''data: {"choices":[{"index":0,"delta":{"content":"lo"},"finish_reason":"stop"}]}'' @ [CHR 0x0A]),
      ReadOk [CHR 0x0A],
      ReadOk (''data: [DONE]'' @ [CHR 0x0A]),
      ReadOk (''data: ignored'' @ [CHR 0x0A])]
   = [\<lparr>Chunk = Some \<lparr>Index = 0, Delta = ''lo'', FinishReason = ''stop''\<rparr>, Err = None\<rparr>]\<close>
  using C3_sse_decoder
    [where raw = \<open>''data: {"choices":[{"index":0,"delta":{"content":"lo"},"finish_reason":"stop"}]}'' @ [CHR 0x0A]\<close>
       and U = \<open>\<lambda>p. if p = ''{"choices":[{"index":0,"delta":{"content":"lo"},"finish_reason":"stop"}]}''
          then Inr \<lparr>sc_ID = [], sc_Object = [], sc_Created = 0, sc_Model = [],
                    sc_Choices = [\<lparr>c_Index = 0, c_Role = [], c_Content = ''lo'',
                                   c_FinishReason = ''stop''\<rparr>,
                                  \<lparr>c_Index = 1, c_Role = ''assistant'', c_Content = [],
                                   c_FinishReason = []\<rparr>]\<rparr>
          else Inl ''invalid character''\<close>
       and n = 1 and m = 2 and partial = \<open>[]\<close> and e = \<open>''reset''\<close>
       and rs = \<open>[ReadOk [CHR 0x0A], ReadOk (''data: [DONE]'' @ [CHR 0x0A]),
                  ReadOk (''data: ignored'' @ [CHR 0x0A])]\<close>
       and chunk = \<open>\<lparr>sc_ID = [], sc_Object = [], sc_Created = 0, sc_Model = [],
                    sc_Choices = [\<lparr>c_Index = 0, c_Role = [], c_Content = ''lo'',
                                   c_FinishReason = ''stop''\<rparr>,
                                  \<lparr>c_Index = 1, c_Role = ''assistant'', c_Content = [],
                                   c_FinishReason = []\<rparr>]\<rparr>\<close>]
  by code_simp

section \<open>Retry-After\<close>

lemma five_minutes: "5 * Minute = 300000000000" "5 * Minute < 9223372036854775807"
  by (simp_all add: Minute_def Second_def)

lemma Until_positive: "0 < Until now t \<longleftrightarrow> now < t"
  by (auto simp: Until_def)

lemma Until_capped:
  "now < t \<Longrightarrow> (if 5 * Minute < Until now t then 5 * Minute else Until now t) = min (t - now) (5 * Minute)"
  by (auto simp: Until_def five_minutes)

lemma digit_val_range: "digit_val c = Some d \<Longrightarrow> 0 \<le> d \<and> d \<le> 9"
  by (auto simp: digit_val_def split: if_splits)

lemma digit_val_sign: "digit_val CHR ''-'' = None" "digit_val CHR ''+'' = None"
  by (simp_all add: digit_val_def)

lemma parse_digits_nonneg: "0 \<le> n \<Longrightarrow> parse_digits n ds = Some v \<Longrightarrow> 0 \<le> v"
proof (induction ds arbitrary: n)
  case Nil
  then show ?case by simp
next
  case (Cons c cs)
  from Cons.prems(2) obtain d where d: "digit_val c = Some d"
    and rest: "parse_digits (n * 10 + d) cs = Some v"
    by (auto split: option.splits)
  from digit_val_range [OF d] Cons.prems(1) have "0 \<le> n * 10 + d"
    by simp
  then show ?case
    using rest by (rule Cons.IH)
qed

lemma Atoi_decimal:
  assumes "ds \<noteq> []" and "parse_digits 0 ds = Some v"
  shows "Atoi ds = (if v \<le> 9223372036854775807 then Some v else None)"
proof -
  obtain c cs where ds: "ds = c # cs"
    using assms(1) by (cases ds) auto
  have "digit_val c \<noteq> None"
    using assms(2) by (auto simp: ds split: option.splits)
  then have sign: "c \<noteq> CHR ''-''" "c \<noteq> CHR ''+''"
    using digit_val_sign by auto
  have v: "0 \<le> v"
    using parse_digits_nonneg [OF _ assms(2)] by simp
  show ?thesis
    using assms(2) sign v unfolding ds by (simp add: Atoi_def Let_def)
qed

text \<open>
  C4 (as stated in the specification). Every positive integer value \<open>n\<close> of the header
  would yield a wait of \<open>min(n, 300)\<close> seconds. The value \<open>99999999999999999999\<close> is a
  positive integer, above 300; \<open>strconv.Atoi\<close> rejects it because it does not fit in an
  \<open>int\<close>, it is no HTTP date, and the wait is 0 instead of 300 seconds.
\<close>

theorem C4_retry_after_overflow_counterexample:
  "parse_digits 0 ''99999999999999999999'' = Some 99999999999999999999 \<and>
   parseRetryAfter (\<lambda>s. None) 0
     (Some \<lparr>StatusCode = 429, RetryAfter = ''99999999999999999999'', Body = None\<rparr>) = 0 \<and>
   min 99999999999999999999 300 * Second = 300000000000"
  by code_simp

text \<open>
  C4 (amended). For a retryable response that carries a \<open>Retry-After\<close> header: a value
  that \<open>strconv.Atoi\<close> reads as a positive integer \<open>n\<close>, that is a positive decimal
  integer not above \<open>2^63 - 1\<close>, yields a wait of \<open>min(n, 300)\<close> seconds; a value that is
  not such an integer and parses as an HTTP date in the future yields
  \<open>min(time until that date, 5 minutes)\<close>; a value that is not such an integer (0, a
  negative number, a decimal integer above \<open>2^63 - 1\<close>, not a number) and that is no HTTP
  date or a date not in the future yields 0. In the engine, when attempts remain, a wait
  of 0 falls through to the computed backoff and a positive wait is used instead of it.
\<close>

theorem C4_retry_after:
  assumes h: "RetryAfter r \<noteq> []"
  shows
  "(Atoi (TrimSpace (RetryAfter r)) = Some n \<and> 0 < n \<longrightarrow>
      parseRetryAfter ParseTime now (Some r) = min n 300 * Second) \<and>
   ((\<forall>k. Atoi (TrimSpace (RetryAfter r)) = Some k \<longrightarrow> k \<le> 0) \<and>
    ParseTime (RetryAfter r) = Some t \<and> now < t \<longrightarrow>
      parseRetryAfter ParseTime now (Some r) = min (t - now) (5 * Minute)) \<and>
   ((\<forall>k. Atoi (TrimSpace (RetryAfter r)) = Some k \<longrightarrow> k \<le> 0) \<and>
    (ParseTime (RetryAfter r) = None \<or> (\<exists>u. ParseTime (RetryAfter r) = Some u \<and> u \<le> now)) \<longrightarrow>
      parseRetryAfter ParseTime now (Some r) = 0) \<and>
   (e_ctx_Err env = None \<and> e_err env = None \<and> e_resp env = Some r \<and>
    shouldRetryStatus (StatusCode r) \<and> attempt < maxAttempts - 1 \<and> e_ctx_Done env = None \<longrightarrow>
      retry_step oor ParseTime base maxAttempts attempt env =
        Continue (EvDo attempt # close_body attempt (Some r) @
                  [EvWait (if 0 < parseRetryAfter ParseTime (e_now env) (Some r)
                             then parseRetryAfter ParseTime (e_now env) (Some r)
                           else computeBackoff oor (e_rand env) base attempt)])
                 (LastStatus (StatusCode r))) \<and>
   (TrimSpace (RetryAfter r) \<noteq> [] \<and> parse_digits 0 (TrimSpace (RetryAfter r)) = Some v \<and>
    0 < v \<and> v \<le> 9223372036854775807 \<longrightarrow>
      parseRetryAfter ParseTime now (Some r) = min v 300 * Second) \<and>
   (TrimSpace (RetryAfter r) \<noteq> [] \<and> parse_digits 0 (TrimSpace (RetryAfter r)) = Some v \<and>
    9223372036854775807 < v \<and>
    (ParseTime (RetryAfter r) = None \<or> (\<exists>u. ParseTime (RetryAfter r) = Some u \<and> u \<le> now)) \<longrightarrow>
      parseRetryAfter ParseTime now (Some r) = 0)"
proof -
  have a: "Atoi (TrimSpace (RetryAfter r)) = Some n \<Longrightarrow> 0 < n \<Longrightarrow>
      parseRetryAfter ParseTime now (Some r) = min n 300 * Second"
    using h by (simp add: parseRetryAfter_def Let_def min_def)
  have b: "(\<forall>k. Atoi (TrimSpace (RetryAfter r)) = Some k \<longrightarrow> k \<le> 0) \<Longrightarrow>
    ParseTime (RetryAfter r) = Some t \<Longrightarrow> now < t \<Longrightarrow>
      parseRetryAfter ParseTime now (Some r) = min (t - now) (5 * Minute)"
    using h Until_capped [of now t]
    by (cases "Atoi (TrimSpace (RetryAfter r))")
       (auto simp add: parseRetryAfter_def Let_def Until_positive)
  have c: "(\<forall>k. Atoi (TrimSpace (RetryAfter r)) = Some k \<longrightarrow> k \<le> 0) \<Longrightarrow>
    (ParseTime (RetryAfter r) = None \<or> (\<exists>u. ParseTime (RetryAfter r) = Some u \<and> u \<le> now)) \<Longrightarrow>
      parseRetryAfter ParseTime now (Some r) = 0"
    using h
    by (cases "Atoi (TrimSpace (RetryAfter r))")
       (auto simp add: parseRetryAfter_def Let_def Until_positive)
  have d: "e_ctx_Err env = None \<Longrightarrow> e_err env = None \<Longrightarrow> e_resp env = Some r \<Longrightarrow>
    shouldRetryStatus (StatusCode r) \<Longrightarrow> attempt < maxAttempts - 1 \<Longrightarrow> e_ctx_Done env = None \<Longrightarrow>
      retry_step oor ParseTime base maxAttempts attempt env =
        Continue (EvDo attempt # close_body attempt (Some r) @
                  [EvWait (if 0 < parseRetryAfter ParseTime (e_now env) (Some r)
                             then parseRetryAfter ParseTime (e_now env) (Some r)
                           else computeBackoff oor (e_rand env) base attempt)])
                 (LastStatus (StatusCode r))"
    by (simp add: retry_step_def backoff_step_def Let_def)
  have e: "TrimSpace (RetryAfter r) \<noteq> [] \<Longrightarrow>
    parse_digits 0 (TrimSpace (RetryAfter r)) = Some v \<Longrightarrow> 0 < v \<Longrightarrow>
    v \<le> 9223372036854775807 \<Longrightarrow>
      parseRetryAfter ParseTime now (Some r) = min v 300 * Second"
    using h by (simp add: parseRetryAfter_def Let_def min_def Atoi_decimal)
  have f: "TrimSpace (RetryAfter r) \<noteq> [] \<Longrightarrow>
    parse_digits 0 (TrimSpace (RetryAfter r)) = Some v \<Longrightarrow> 9223372036854775807 < v \<Longrightarrow>
    (ParseTime (RetryAfter r) = None \<or> (\<exists>u. ParseTime (RetryAfter r) = Some u \<and> u \<le> now)) \<Longrightarrow>
      parseRetryAfter ParseTime now (Some r) = 0"
    using h by (auto simp add: parseRetryAfter_def Let_def Atoi_decimal Until_positive)
  from a b c d e f show ?thesis by blast
qed

theorem C4_retry_after_witness:
  "parseRetryAfter (\<lambda>s. if s = ''Wed, 21 Oct 2015 07:28:00 GMT'' then Some 1445412480000000000 else None)
      0 (Some \<lparr>StatusCode = 429, RetryAfter = ''120'', Body = None\<rparr>) = 120 * Second \<and>
   parseRetryAfter (\<lambda>s. if s = ''Wed, 21 Oct 2015 07:28:00 GMT'' then Some 1445412480000000000 else None)
      0 (Some \<lparr>StatusCode = 429, RetryAfter = ''86400'', Body = None\<rparr>) = 300 * Second \<and>
   parseRetryAfter (\<lambda>s. if s = ''Wed, 21 Oct 2015 07:28:00 GMT'' then Some 1445412480000000000 else None)
      1445412470000000000
      (Some \<lparr>StatusCode = 503, RetryAfter = ''Wed, 21 Oct 2015 07:28:00 GMT'', Body = None\<rparr>)
      = 10 * Second \<and>
   parseRetryAfter (\<lambda>s. if s = ''Wed, 21 Oct 2015 07:28:00 GMT'' then Some 1445412480000000000 else None)
      1445412490000000000
      (Some \<lparr>StatusCode = 503, RetryAfter = ''Wed, 21 Oct 2015 07:28:00 GMT'', Body = None\<rparr>)
      = 0 \<and>
   retry_step (\<lambda>x. - 9223372036854775808)
      (\<lambda>s. if s = ''Wed, 21 Oct 2015 07:28:00 GMT'' then Some 1445412480000000000 else None)
      (100 * Millisecond) 3 0
      \<lparr>e_ctx_Err = None, e_resp = Some \<lparr>StatusCode = 429, RetryAfter = ''0'', Body = None\<rparr>,
       e_err = None, e_now = 0, e_rand = 1 / 2, e_ctx_Done = None\<rparr>
      = Continue [EvDo 0, EvWait (computeBackoff (\<lambda>x. - 9223372036854775808) (1 / 2)
                                    (100 * Millisecond) 0)] (LastStatus 429) \<and>
   parseRetryAfter (\<lambda>s. if s = ''Wed, 21 Oct 2015 07:28:00 GMT'' then Some 1445412480000000000 else None)
      0 (Some \<lparr>StatusCode = 429, RetryAfter = ''9223372036854775807'', Body = None\<rparr>)
      = 300 * Second \<and>
   parseRetryAfter (\<lambda>s. if s = ''Wed, 21 Oct 2015 07:28:00 GMT'' then Some 1445412480000000000 else None)
      0 (Some \<lparr>StatusCode = 429, RetryAfter = ''9223372036854775808'', Body = None\<rparr>) = 0"
proof -
  let ?PT = "\<lambda>s. if s = ''Wed, 21 Oct 2015 07:28:00 GMT'' then Some (1445412480000000000::int) else None"
  let ?date = "''Wed, 21 Oct 2015 07:28:00 GMT''"
  have atoi: "Atoi (TrimSpace ''120'') = Some 120" "Atoi (TrimSpace ''86400'') = Some 86400"
    "Atoi (TrimSpace ?date) = None" "Atoi (TrimSpace ''0'') = Some 0"
    by code_simp+
  have retry: "shouldRetryStatus 429"
    by (simp add: shouldRetryStatus_def)
  have five: "5 * Minute = 300 * Second"
    by (simp add: Minute_def)
  note inst = C4_retry_after [where ParseTime = ?PT]
  have 1: "parseRetryAfter ?PT 0 (Some \<lparr>StatusCode = 429, RetryAfter = ''120'', Body = None\<rparr>) = 120 * Second"
    using inst [where r = "\<lparr>StatusCode = 429, RetryAfter = ''120'', Body = None\<rparr>" and n = 120 and now = 0]
      atoi by simp
  have 2: "parseRetryAfter ?PT 0 (Some \<lparr>StatusCode = 429, RetryAfter = ''86400'', Body = None\<rparr>) = 300 * Second"
    using inst [where r = "\<lparr>StatusCode = 429, RetryAfter = ''86400'', Body = None\<rparr>" and n = 86400 and now = 0]
      atoi by simp
  have 3: "parseRetryAfter ?PT 1445412470000000000
      (Some \<lparr>StatusCode = 503, RetryAfter = ?date, Body = None\<rparr>) = 10 * Second"
    using inst [where r = "\<lparr>StatusCode = 503, RetryAfter = ?date, Body = None\<rparr>"
        and now = 1445412470000000000 and t = 1445412480000000000]
      atoi by (simp add: five Second_def)
  have 4: "parseRetryAfter ?PT 1445412490000000000
      (Some \<lparr>StatusCode = 503, RetryAfter = ?date, Body = None\<rparr>) = 0"
    using inst [where r = "\<lparr>StatusCode = 503, RetryAfter = ?date, Body = None\<rparr>"
        and now = 1445412490000000000]
      atoi by simp
  have z: "parseRetryAfter ?PT 0 (Some \<lparr>StatusCode = 429, RetryAfter = ''0'', Body = None\<rparr>) = 0"
    using inst [where r = "\<lparr>StatusCode = 429, RetryAfter = ''0'', Body = None\<rparr>" and now = 0]
      atoi by simp
  have 5: "retry_step (\<lambda>x. - 9223372036854775808) ?PT (100 * Millisecond) 3 0
      \<lparr>e_ctx_Err = None, e_resp = Some \<lparr>StatusCode = 429, RetryAfter = ''0'', Body = None\<rparr>,
       e_err = None, e_now = 0, e_rand = 1 / 2, e_ctx_Done = None\<rparr>
      = Continue [EvDo 0, EvWait (computeBackoff (\<lambda>x. - 9223372036854775808) (1 / 2)
                                    (100 * Millisecond) 0)] (LastStatus 429)"
    using inst [where r = "\<lparr>StatusCode = 429, RetryAfter = ''0'', Body = None\<rparr>"
        and env = "\<lparr>e_ctx_Err = None, e_resp = Some \<lparr>StatusCode = 429, RetryAfter = ''0'', Body = None\<rparr>,
       e_err = None, e_now = 0, e_rand = 1 / 2, e_ctx_Done = None\<rparr>"
        and attempt = 0 and maxAttempts = 3 and oor = "\<lambda>x. - 9223372036854775808"
        and base = "100 * Millisecond"]
      retry z by (simp add: close_body_def)
  have pd: "TrimSpace ''9223372036854775807'' = ''9223372036854775807''"
    "parse_digits 0 ''9223372036854775807'' = Some 9223372036854775807"
    "TrimSpace ''9223372036854775808'' = ''9223372036854775808''"
    "parse_digits 0 ''9223372036854775808'' = Some 9223372036854775808"
    by code_simp+
  have 6: "parseRetryAfter ?PT 0
      (Some \<lparr>StatusCode = 429, RetryAfter = ''9223372036854775807'', Body = None\<rparr>) = 300 * Second"
    using inst [where r = "\<lparr>StatusCode = 429, RetryAfter = ''9223372036854775807'', Body = None\<rparr>"
        and v = 9223372036854775807 and now = 0]
      pd by simp
  have 7: "parseRetryAfter ?PT 0
      (Some \<lparr>StatusCode = 429, RetryAfter = ''9223372036854775808'', Body = None\<rparr>) = 0"
    using inst [where r = "\<lparr>StatusCode = 429, RetryAfter = ''9223372036854775808'', Body = None\<rparr>"
        and v = 9223372036854775808 and now = 0]
      pd by simp
  from 1 2 3 4 5 6 7 show ?thesis by blast
qed

section \<open>The attempt loop: budget and response bodies\<close>

lemma attempts_of_append: "attempts_of (xs @ ys) = attempts_of xs @ attempts_of ys"
  by (induction xs rule: attempts_of.induct) auto

lemma attempts_of_close_body: "attempts_of (close_body a resp) = []"
  by (auto simp: close_body_def split: option.splits)

lemma retry_step_retryable:
  assumes "retryable_failure env"
  shows "\<exists>evs l. attempts_of evs = [a] \<and>
           retry_step oor PT base m a env = (if a = m - 1 then Break evs l else Continue evs l)"
proof (cases "e_err env")
  case None
  then show ?thesis
    using assms
    by (auto simp: retryable_failure_def retry_step_def backoff_step_def Let_def
        attempts_of_append attempts_of_close_body)
next
  case (Some err)
  then show ?thesis
    using assms
    by (auto simp: retryable_failure_def retry_step_def backoff_step_def Let_def
        attempts_of_append attempts_of_close_body)
qed

lemma retry_loop_unfold:
  "a < m \<Longrightarrow>
     retry_loop oor PT base envs m a lastErr =
       (case retry_step oor PT base m a (envs a) of
          Return evs res \<Rightarrow> (evs, res)
        | Break evs l \<Rightarrow> (evs, None, Some (MaxRetriesExceeded m (Some l)))
        | Continue evs l \<Rightarrow>
            (case retry_loop oor PT base envs m (a + 1) (Some l) of
               (evs', res) \<Rightarrow> (evs @ evs', res)))"
  by (subst retry_loop.simps) simp

lemma retry_loop_exhausts:
  assumes "\<forall>i. retryable_failure (envs i)"
  shows "n = nat (m - a) \<Longrightarrow> a < m \<Longrightarrow>
         attempts_of (fst (retry_loop oor PT base envs m a lastErr)) = [a..m - 1] \<and>
         (\<exists>l. snd (retry_loop oor PT base envs m a lastErr) = (None, Some (MaxRetriesExceeded m (Some l))))"
proof (induction n arbitrary: a lastErr)
  case 0
  then show ?case by simp
next
  case (Suc n)
  from assms have rf: "retryable_failure (envs a)" by simp
  obtain evs l where evs: "attempts_of evs = [a]"
    and step: "retry_step oor PT base m a (envs a) = (if a = m - 1 then Break evs l else Continue evs l)"
    using retry_step_retryable [OF rf] by blast
  show ?case
  proof (cases "a = m - 1")
    case True
    then show ?thesis
      using retry_loop_unfold [OF \<open>a < m\<close>, of oor PT base envs lastErr] step evs by simp
  next
    case False
    with Suc.prems have n: "n = nat (m - (a + 1))" and lt: "a + 1 < m" by simp_all
    from Suc.IH [OF n lt, of "Some l"]
    obtain l' where ih1: "attempts_of (fst (retry_loop oor PT base envs m (a + 1) (Some l))) = [a + 1..m - 1]"
      and ih2: "snd (retry_loop oor PT base envs m (a + 1) (Some l)) = (None, Some (MaxRetriesExceeded m (Some l')))"
      by blast
    have up: "[a..m - 1] = a # [a + 1..m - 1]"
      using Suc.prems by (simp add: upto_rec1)
    obtain evs' res where rl: "retry_loop oor PT base envs m (a + 1) (Some l) = (evs', res)"
      by (cases "retry_loop oor PT base envs m (a + 1) (Some l)") auto
    have unf: "retry_loop oor PT base envs m a lastErr = (evs @ evs', res)"
      using retry_loop_unfold [OF \<open>a < m\<close>, of oor PT base envs lastErr] step False rl by simp
    show ?thesis
      using ih1 ih2 evs up unfolding unf rl by (simp add: attempts_of_append)
  qed
qed


lemma WithDefaults_MaxRetries_positive: "0 <s MaxRetries (WithDefaults c)"
  by (auto simp: WithDefaults_def word_sle_eq word_sless_alt)

lemma NewClient_cfg: "NewClient c = Inr cl \<Longrightarrow> cfg cl = WithDefaults c"
  by (auto simp: NewClient_def Let_def split: option.splits)

lemma NewClient_succeeds:
  "TrimRight_slash (BaseURL c) \<noteq> [] \<Longrightarrow> APIKey c \<noteq> [] \<Longrightarrow>
     NewClient c = Inr \<lparr>cfg = WithDefaults c\<rparr>"
  by (simp add: NewClient_def Let_def Config_Validate_def WithDefaults_def)

lemma doWithRetry_two_retries:
  assumes "MaxRetries (cfg cl) = 2" and "\<forall>i. retryable_failure (envs i)"
  shows "attempts_of (fst (doWithRetry cl oor PT envs)) = [0, 1, 2] \<and>
         (\<exists>l. snd (doWithRetry cl oor PT envs) = (None, Some (MaxRetriesExceeded 3 (Some l))))"
proof -
  have m: "sint (MaxRetries (cfg cl) + 1) = 3"
    using assms(1) by simp
  have up: "[0..(2::int)] = [0, 1, 2]"
    by (simp add: upto_rec1)
  show ?thesis
    using retry_loop_exhausts [OF assms(2), of "nat 3" 3 0 oor PT "BaseBackoff (cfg cl)" None] up
    by (simp add: doWithRetry_def Let_def m)
qed

lemma retry_step_first_event:
  assumes "e_ctx_Err env = None"
  shows "case retry_step oor PT base m a env of
           Return evs res \<Rightarrow> \<exists>t. evs = EvDo a # t
         | Break evs l \<Rightarrow> \<exists>t. evs = EvDo a # t
         | Continue evs l \<Rightarrow> \<exists>t. evs = EvDo a # t"
  using assms
  by (auto simp: retry_step_def backoff_step_def Let_def split: option.splits)

lemma retry_loop_first_event:
  assumes "a < m" and "e_ctx_Err (envs a) = None"
  shows "\<exists>t. fst (retry_loop oor PT base envs m a lastErr) = EvDo a # t"
  using retry_step_first_event [OF assms(2), where oor = oor and PT = PT and base = base
      and m = m and a = a]
  by (auto simp: retry_loop_unfold [OF assms(1)] split: step.splits prod.splits)

text \<open>
  The default budget. For every configuration with \<open>MaxRetries \<le> 0\<close>: \<open>WithDefaults\<close>
  sets \<open>MaxRetries\<close> to 2; \<open>NewClient\<close> builds a client from it whenever the base URL and
  the key are present, and every client it builds has \<open>MaxRetries = 2\<close>, so that against
  failures that stay retryable (and a context that stays alive) \<open>doWithRetry\<close> calls
  \<open>do\<close> exactly three times, attempts 0, 1 and 2, and then reports that the retries
  are exhausted. The \<open>MaxRetries\<close> of a client built by \<open>NewClient\<close> from any
  configuration is positive.
\<close>

lemma default_retries:
  assumes "MaxRetries c \<le>s 0"
  shows "MaxRetries (WithDefaults c) = 2 \<and>
         (TrimRight_slash (BaseURL c) \<noteq> [] \<and> APIKey c \<noteq> [] \<longrightarrow> (\<exists>cl. NewClient c = Inr cl)) \<and>
         (\<forall>cl. NewClient c = Inr cl \<longrightarrow>
            MaxRetries (cfg cl) = 2 \<and>
            (\<forall>envs oor ParseTime. (\<forall>i. retryable_failure (envs i)) \<longrightarrow>
               attempts_of (fst (doWithRetry cl oor ParseTime envs)) = [0, 1, 2] \<and>
               (\<exists>l. snd (doWithRetry cl oor ParseTime envs)
                       = (None, Some (MaxRetriesExceeded 3 (Some l)))))) \<and>
         (\<forall>c' cl'. NewClient c' = Inr cl' \<longrightarrow> 0 <s MaxRetries (cfg cl'))"
proof -
  have two: "MaxRetries (WithDefaults c) = 2"
    using assms by (simp add: WithDefaults_def)
  have ex: "TrimRight_slash (BaseURL c) \<noteq> [] \<and> APIKey c \<noteq> [] \<longrightarrow> (\<exists>cl. NewClient c = Inr cl)"
    using NewClient_succeeds [of c] by blast
  have run: "\<forall>cl. NewClient c = Inr cl \<longrightarrow>
            MaxRetries (cfg cl) = 2 \<and>
            (\<forall>envs oor ParseTime. (\<forall>i. retryable_failure (envs i)) \<longrightarrow>
               attempts_of (fst (doWithRetry cl oor ParseTime envs)) = [0, 1, 2] \<and>
               (\<exists>l. snd (doWithRetry cl oor ParseTime envs)
                       = (None, Some (MaxRetriesExceeded 3 (Some l)))))"
  proof (intro allI impI)
    fix cl assume "NewClient c = Inr cl"
    then have mr: "MaxRetries (cfg cl) = 2"
      using two by (simp add: NewClient_cfg)
    show "MaxRetries (cfg cl) = 2 \<and>
            (\<forall>envs oor ParseTime. (\<forall>i. retryable_failure (envs i)) \<longrightarrow>
               attempts_of (fst (doWithRetry cl oor ParseTime envs)) = [0, 1, 2] \<and>
               (\<exists>l. snd (doWithRetry cl oor ParseTime envs)
                       = (None, Some (MaxRetriesExceeded 3 (Some l)))))"
      using mr doWithRetry_two_retries [OF mr] by blast
  qed
  have pos: "\<forall>c' cl'. NewClient c' = Inr cl' \<longrightarrow> 0 <s MaxRetries (cfg cl')"
    using WithDefaults_MaxRetries_positive by (auto simp: NewClient_cfg)
  from two ex run pos show ?thesis by blast
qed

lemma default_retries_example:
  "(0 :: 64 word) \<le>s 0 \<and>
   MaxRetries (WithDefaults \<lparr>BaseURL = ''http://upstream/'', APIKey = ''key'', UpstreamTimeout = 0,
       MaxRetries = 0, BaseBackoff = 0, MaxIdleConns = 0, MaxIdleConnsPerHost = 0\<rparr>) = 2 \<and>
   (\<exists>cl. NewClient \<lparr>BaseURL = ''http://upstream/'', APIKey = ''key'', UpstreamTimeout = 0,
       MaxRetries = 0, BaseBackoff = 0, MaxIdleConns = 0, MaxIdleConnsPerHost = 0\<rparr> = Inr cl \<and>
      attempts_of (fst (doWithRetry cl (\<lambda>x. - 9223372036854775808) (\<lambda>s. None)
         (\<lambda>i. \<lparr>e_ctx_Err = None,
                e_resp = Some \<lparr>StatusCode = 503, RetryAfter = [], Body = Some \<lparr>unread = 0, closed = False\<rparr>\<rparr>,
                e_err = None, e_now = 0, e_rand = 1 / 2, e_ctx_Done = None\<rparr>))) = [0, 1, 2])"
proof -
  let ?c = "\<lparr>BaseURL = ''http://upstream/'', APIKey = ''key'', UpstreamTimeout = 0,
       MaxRetries = 0, BaseBackoff = 0, MaxIdleConns = 0, MaxIdleConnsPerHost = 0\<rparr>"
  let ?envs = "\<lambda>i::int. \<lparr>e_ctx_Err = None,
                e_resp = Some \<lparr>StatusCode = 503, RetryAfter = [], Body = Some \<lparr>unread = 0, closed = False\<rparr>\<rparr>,
                e_err = None, e_now = 0, e_rand = 1 / 2, e_ctx_Done = None\<rparr>"
  have le: "MaxRetries ?c \<le>s 0" by simp
  have url: "TrimRight_slash (BaseURL ?c) \<noteq> [] \<and> APIKey ?c \<noteq> []"
    by (simp add: TrimRight_slash_def)
  have rf: "\<forall>i. retryable_failure (?envs i)"
    by (simp add: retryable_failure_def shouldRetryStatus_def)
  note inst = default_retries [OF le]
  from inst have two: "MaxRetries (WithDefaults ?c) = 2"
    by blast
  from inst url obtain cl where cl: "NewClient ?c = Inr cl"
    by blast
  from inst have run: "\<And>cl envs oor ParseTime. NewClient ?c = Inr cl \<Longrightarrow>
      (\<forall>i. retryable_failure (envs i)) \<Longrightarrow>
      attempts_of (fst (doWithRetry cl oor ParseTime envs)) = [0, 1, 2]"
    by blast
  from run [OF cl rf] cl two show ?thesis
    by auto
qed

text \<open>
  A positive \<open>MaxRetries\<close> other than the largest \<open>int\<close> gives \<open>MaxRetries + 1\<close>
  attempts, at least two.
\<close>

lemma sint_succ:
  assumes "w \<noteq> (0x7FFFFFFFFFFFFFFF :: 64 word)"
  shows "sint (w + 1) = sint w + 1"
proof -
  have up: "sint w < 2 ^ 63" and lo: "- (2 ^ 63) \<le> sint w"
    using sint_lt [of w] sint_ge [of w] by simp_all
  have "sint w \<noteq> 9223372036854775807"
  proof
    assume "sint w = 9223372036854775807"
    then have "sint w = sint (0x7FFFFFFFFFFFFFFF :: 64 word)" by simp
    then have "w = 0x7FFFFFFFFFFFFFFF" by (rule signed_word_eqI)
    with assms show False by simp
  qed
  with up have "sint w + 1 < 2 ^ 63" by simp
  moreover from lo have "- (2 ^ 63) \<le> sint w + 1" by simp
  ultimately have "signed_take_bit 63 (sint w + 1) = sint w + 1"
    by (simp add: signed_take_bit_int_eq_self)
  then show ?thesis
    by (simp add: sint_word_ariths)
qed


lemma doWithRetry_attempts_no_wrap:
  assumes "0 <s MaxRetries (cfg cl)"
    and "MaxRetries (cfg cl) \<noteq> 0x7FFFFFFFFFFFFFFF"
    and "\<forall>i. retryable_failure (envs i)"
  shows "attempts_of (fst (doWithRetry cl oor PT envs)) = [0..sint (MaxRetries (cfg cl))] \<and>
         2 \<le> length (attempts_of (fst (doWithRetry cl oor PT envs)))"
proof -
  define m where "m = sint (MaxRetries (cfg cl)) + 1"
  have pos: "0 < sint (MaxRetries (cfg cl))"
    using assms(1) by (simp add: word_sless_alt)
  have s: "sint (MaxRetries (cfg cl) + 1) = m"
    unfolding m_def using assms(2) by (rule sint_succ)
  have m: "0 < m" "\<not> m < 1" "m - 1 = sint (MaxRetries (cfg cl))"
    using pos by (simp_all add: m_def)
  have "attempts_of (fst (retry_loop oor PT (BaseBackoff (cfg cl)) envs m 0 None)) = [0..m - 1]"
    using retry_loop_exhausts [OF assms(3), of "nat (m - 0)" m 0 oor PT "BaseBackoff (cfg cl)" None]
      m(1) by simp
  then have a: "attempts_of (fst (doWithRetry cl oor PT envs)) = [0..sint (MaxRetries (cfg cl))]"
    using m by (simp add: doWithRetry_def Let_def s)
  then show ?thesis
    using pos by simp
qed

text \<open>
  C10. The claim: \<open>WithDefaults\<close> turns \<open>MaxRetries \<le> 0\<close> into 2, so a client built by
  \<open>NewClient\<close> has at least three attempts on persistently retryable failures, and
  exactly one attempt cannot be configured through the constructor. The comment of
  \<open>doWithRetry\<close> promises \<open>MaxRetries+1\<close> attempts. For \<open>MaxRetries = 2^63 - 1\<close>, the
  largest \<open>int\<close>, \<open>WithDefaults\<close> keeps the value, \<open>MaxRetries + 1\<close> wraps around to
  \<open>- 2^63\<close>, the guard \<open>maxAttempts < 1\<close> sets it to 1, and the client makes exactly
  one attempt.
\<close>

theorem C10_one_attempt_at_max_int:
  "map_sum id
     (\<lambda>cl. (MaxRetries (cfg cl),
            doWithRetry cl (\<lambda>x. - 9223372036854775808) (\<lambda>s. None)
              (\<lambda>i. \<lparr>e_ctx_Err = None,
                     e_resp = Some \<lparr>StatusCode = 503, RetryAfter = [], Body = None\<rparr>,
                     e_err = None, e_now = 0, e_rand = 1 / 2, e_ctx_Done = None\<rparr>)))
     (NewClient \<lparr>BaseURL = ''http://upstream'', APIKey = ''key'', UpstreamTimeout = 0,
                 MaxRetries = 0x7FFFFFFFFFFFFFFF, BaseBackoff = 0, MaxIdleConns = 0,
                 MaxIdleConnsPerHost = 0\<rparr>)
   = Inr (0x7FFFFFFFFFFFFFFF,
          [EvDo 0], None, Some (MaxRetriesExceeded 1 (Some (LastStatus 503))))"
  by code_simp

text \<open>
  What the engine does with the body of a response it retries: whenever an attempt
  returns a response with a retryable status and a retry follows (attempts remain, the
  wait is not interrupted and the context is alive at the next iteration), the body is
  closed after that attempt and before the next one. \<open>Close\<close> is the only operation on
  the body: its unread bytes stay unread.
\<close>

lemma body_closed_before_retry:
  assumes "attempt < maxAttempts - 1"
    and "e_ctx_Err (envs attempt) = None"
    and "e_err (envs attempt) = None"
    and "e_resp (envs attempt) = Some r"
    and "shouldRetryStatus (StatusCode r)"
    and "Body r = Some b"
    and "e_ctx_Done (envs attempt) = None"
    and "e_ctx_Err (envs (attempt + 1)) = None"
  shows "\<exists>w rest.
           fst (retry_loop oor ParseTime base envs maxAttempts attempt lastErr) =
             EvDo attempt # EvCloseBody attempt \<lparr>unread = unread b, closed = True\<rparr> # EvWait w
               # EvDo (attempt + 1) # rest"
proof -
  have lt: "attempt < maxAttempts" and lt': "attempt + 1 < maxAttempts"
    using assms(1) by simp_all
  define w where "w = (if 0 < parseRetryAfter ParseTime (e_now (envs attempt)) (Some r)
                         then parseRetryAfter ParseTime (e_now (envs attempt)) (Some r)
                       else computeBackoff oor (e_rand (envs attempt)) base attempt)"
  have b: "b\<lparr>closed := True\<rparr> = \<lparr>unread = unread b, closed = True\<rparr>"
    by (cases b) simp
  have step: "retry_step oor ParseTime base maxAttempts attempt (envs attempt) =
      Continue [EvDo attempt, EvCloseBody attempt \<lparr>unread = unread b, closed = True\<rparr>, EvWait w]
        (LastStatus (StatusCode r))"
    using assms by (simp add: retry_step_def backoff_step_def Let_def close_body_def w_def b)
  obtain t where t: "fst (retry_loop oor ParseTime base envs maxAttempts (attempt + 1)
                        (Some (LastStatus (StatusCode r)))) = EvDo (attempt + 1) # t"
    using retry_loop_first_event [where envs = envs and a = "attempt + 1", OF lt' assms(8)]
    by blast
  show ?thesis
    using t by (auto simp: retry_loop_unfold [OF lt] step split: prod.splits)
qed

lemma body_closed_before_retry_example:
  "(0::int) < 3 - 1 \<and> shouldRetryStatus 503 \<and>
   (\<exists>w rest.
      fst (retry_loop (\<lambda>x. - 9223372036854775808) (\<lambda>s. None) (100 * Millisecond)
             (\<lambda>i. if i = 0
                  then \<lparr>e_ctx_Err = None,
                        e_resp = Some \<lparr>StatusCode = 503, RetryAfter = [],
                                        Body = Some \<lparr>unread = 5, closed = False\<rparr>\<rparr>,
                        e_err = None, e_now = 0, e_rand = 1 / 2, e_ctx_Done = None\<rparr>
                  else \<lparr>e_ctx_Err = None,
                        e_resp = Some \<lparr>StatusCode = 200, RetryAfter = [],
                                        Body = Some \<lparr>unread = 9, closed = False\<rparr>\<rparr>,
                        e_err = None, e_now = 0, e_rand = 1 / 2, e_ctx_Done = None\<rparr>)
             3 0 None)
        = EvDo 0 # EvCloseBody 0 \<lparr>unread = 5, closed = True\<rparr> # EvWait w # EvDo 1 # rest)"
proof -
  let ?envs = "\<lambda>i::int. if i = 0
                  then \<lparr>e_ctx_Err = None,
                        e_resp = Some \<lparr>StatusCode = 503, RetryAfter = [],
                                        Body = Some \<lparr>unread = 5, closed = False\<rparr>\<rparr>,
                        e_err = None, e_now = 0, e_rand = 1 / 2, e_ctx_Done = None\<rparr>
                  else \<lparr>e_ctx_Err = None,
                        e_resp = Some \<lparr>StatusCode = 200, RetryAfter = [],
                                        Body = Some \<lparr>unread = 9, closed = False\<rparr>\<rparr>,
                        e_err = None, e_now = 0, e_rand = 1 / 2, e_ctx_Done = None\<rparr>"
  have retry: "shouldRetryStatus 503"
    by (simp add: shouldRetryStatus_def)
  have "\<exists>w rest.
      fst (retry_loop (\<lambda>x. - 9223372036854775808) (\<lambda>s. None) (100 * Millisecond) ?envs 3 0 None)
        = EvDo 0 # EvCloseBody 0 \<lparr>unread = unread \<lparr>unread = 5, closed = False\<rparr>, closed = True\<rparr>
            # EvWait w # EvDo (0 + 1) # rest"
    by (rule body_closed_before_retry
          [where r = "\<lparr>StatusCode = 503, RetryAfter = [],
                       Body = Some \<lparr>unread = 5, closed = False\<rparr>\<rparr>"])
       (simp_all add: retry)
  then show ?thesis
    using retry by simp
qed

text \<open>
  C6. The claim: whenever an attempt returns a response with a retryable status and a
  retry follows, the response body is drained (read to its end) and closed before the
  next attempt, so that the connection can be reused; the comment in \<open>doWithRetry\<close>
  states the same purpose (\<open>close body before retrying so connection can be reused\<close>).
  In the run below the first attempt answers 503 with five unread bytes in the body and
  the second answers 200: the body is closed with its five bytes still unread, and the
  second attempt follows. The body was not drained.
\<close>

theorem C6_body_not_drained:
  "doWithRetry
     \<lparr>cfg = WithDefaults \<lparr>BaseURL = ''http://upstream'', APIKey = ''key'', UpstreamTimeout = 0,
                          MaxRetries = 2, BaseBackoff = 0, MaxIdleConns = 0,
                          MaxIdleConnsPerHost = 0\<rparr>\<rparr>
     (\<lambda>x. - 9223372036854775808) (\<lambda>s. None)
     (\<lambda>i. if i = 0
          then \<lparr>e_ctx_Err = None,
                e_resp = Some \<lparr>StatusCode = 503, RetryAfter = [],
                                Body = Some \<lparr>unread = 5, closed = False\<rparr>\<rparr>,
                e_err = None, e_now = 0, e_rand = 1 / 2, e_ctx_Done = None\<rparr>
          else \<lparr>e_ctx_Err = None,
                e_resp = Some \<lparr>StatusCode = 200, RetryAfter = [],
                                Body = Some \<lparr>unread = 9, closed = False\<rparr>\<rparr>,
                e_err = None, e_now = 0, e_rand = 1 / 2, e_ctx_Done = None\<rparr>)
   = ([EvDo 0, EvCloseBody 0 \<lparr>unread = 5, closed = True\<rparr>, EvWait 50000000, EvDo 1],
      Some \<lparr>StatusCode = 200, RetryAfter = [], Body = Some \<lparr>unread = 9, closed = False\<rparr>\<rparr>,
      None)"
  by code_simp

section \<open>The handler and requests that fail validation\<close>

lemma client_rejects_invalid:
  "Validate r = Some verr \<Longrightarrow>
     client_ChatCompletion E exchange (Some r) = ([], Inl (InvalidRequest verr))"
  by (simp add: client_ChatCompletion_def ChatCompletion_preflight_def)

text \<open>
  C1 (as stated in the specification). A non-streaming request that decodes but has a
  field out of range would be answered with status 400 and \<open>invalid_json\<close> before any
  cache lookup. For the body \<open>{"messages":[{"role":"user","content":"x"}]}\<close> (no model)
  and an empty cache, the handler looks the key up in the cache, calls the client, and
  answers with status 502 and \<open>upstream_error\<close>.
\<close>

theorem C1_validation_counterexample:
  "handler_ChatCompletion
     \<lparr>enc_string = (\<lambda>s. [CHR 0x22] @ s @ [CHR 0x22]), enc_float = (\<lambda>q. ''0.5''),
      enc_int = (\<lambda>i. ''7'')\<rparr>
     (\<lambda>s. 0)
     (\<lambda>k. (None, False, None))
     (\<lambda>bs. None)
     (\<lambda>resp. None)
     (\<lambda>body. (Inr () :: unit client_error + unit))
     \<lparr>h_CacheTTL = 300000000000, h_VersionID = ''vtest''\<rparr>
     \<lparr>decoded_body = Some \<lparr>b_model = None,
                             b_messages = Some [\<lparr>Role = ''user'', Content = ''x''\<rparr>],
                             b_temperature = None, b_top_p = None, b_max_tokens = None,
                             b_stop = None, b_stream = None\<rparr>,
      X_User_ID = ''user-42''\<rparr>
   = ([CacheGet ''exact:user-42::vtest:0000000000000000000000000000000000000000000000000000000000000000'',
       LLMCall],
      ErrorJSON 502 ''upstream_error'')"
  by code_simp

text \<open>
  C1 (amended). For every inbound non-streaming request whose body decodes and that
  \<open>Validate\<close> rejects (missing model, invalid role, empty non-system content, temperature
  or top_p out of range): the handler does not validate; it builds the cache key and
  looks it up first (when the key can be built). A hit whose bytes decode is answered
  with status 200 and the cached response. Otherwise the handler calls the client, whose
  pre-flight validation rejects the request, and answers with status 502 and
  \<open>{"error":"upstream_error"}\<close>. In every case no exchange with the upstream takes place.
\<close>

theorem C1_invalid_request_reply:
  assumes "decoded_body rq = Some b"
    and "Validate (Decode b) = Some verr"
    and "\<not> Stream (Decode b)"
  shows
  "handler_ChatCompletion E Sum256 cache_Get Unmarshal Marshal exchange h rq =
     (case BuildExactCacheKeyFromChatRequest E Sum256 (Decode b)
             (if X_User_ID rq = [] then ''anon'' else X_User_ID rq)
             (if h_VersionID h = [] then ''v1'' else h_VersionID h) of
        Inl err \<Rightarrow> ([LLMCall], ErrorJSON 502 ''upstream_error'')
      | Inr key \<Rightarrow>
          (case cache_Get (key_String key) of
             (cachedBytes, hit, cacheErr) \<Rightarrow>
               (case (if hit then Unmarshal (case cachedBytes of None \<Rightarrow> [] | Some bs \<Rightarrow> bs)
                      else None) of
                  Some cachedResp \<Rightarrow> ([CacheGet (key_String key)], JSON cachedResp)
                | None \<Rightarrow> ([CacheGet (key_String key), LLMCall],
                             ErrorJSON 502 ''upstream_error''))))
   \<and> (\<forall>body. UpstreamExchange body
                \<notin> set (fst (handler_ChatCompletion E Sum256 cache_Get Unmarshal Marshal exchange h rq)))"
proof -
  let ?u = "if X_User_ID rq = [] then ''anon'' else X_User_ID rq"
  let ?v = "if h_VersionID h = [] then ''v1'' else h_VersionID h"
  note cl = client_rejects_invalid [OF assms(2), of E exchange]
  show ?thesis
  proof (cases "BuildExactCacheKeyFromChatRequest E Sum256 (Decode b) ?u ?v")
    case (Inl err)
    then show ?thesis
      using assms(1,3) cl by (simp add: handler_ChatCompletion_def Let_def)
  next
    case (Inr key)
    obtain cachedBytes hit cacheErr where g: "cache_Get (key_String key) = (cachedBytes, hit, cacheErr)"
      by (cases "cache_Get (key_String key)") auto
    show ?thesis
    proof (cases "if hit then Unmarshal (case cachedBytes of None \<Rightarrow> [] | Some bs \<Rightarrow> bs) else None")
      case None
      then show ?thesis
        using assms(1,3) cl Inr g by (simp add: handler_ChatCompletion_def Let_def)
    next
      case (Some cachedResp)
      then show ?thesis
        using assms(1,3) cl Inr g by (simp add: handler_ChatCompletion_def Let_def)
    qed
  qed
qed

theorem C1_invalid_request_reply_witness:
  "Validate (Decode \<lparr>b_model = Some ''gpt-4'',
                      b_messages = Some [\<lparr>Role = ''user'', Content = ''x''\<rparr>],
                      b_temperature = Some (Fin 3), b_top_p = None, b_max_tokens = None,
                      b_stop = None, b_stream = None\<rparr>) = Some TemperatureRange \<and>
   handler_ChatCompletion
     \<lparr>enc_string = (\<lambda>s. [CHR 0x22] @ s @ [CHR 0x22]), enc_float = (\<lambda>q. ''3''),
      enc_int = (\<lambda>i. ''7'')\<rparr>
     (\<lambda>s. 0)
     (\<lambda>k. (None, False, None))
     (\<lambda>bs. None)
     (\<lambda>resp. None)
     (\<lambda>body. (Inr () :: unit client_error + unit))
     \<lparr>h_CacheTTL = 300000000000, h_VersionID = []\<rparr>
     \<lparr>decoded_body = Some \<lparr>b_model = Some ''gpt-4'',
                             b_messages = Some [\<lparr>Role = ''user'', Content = ''x''\<rparr>],
                             b_temperature = Some (Fin 3), b_top_p = None, b_max_tokens = None,
                             b_stop = None, b_stream = None\<rparr>,
      X_User_ID = []\<rparr>
   = ([CacheGet ''exact:anon:gpt-4:v1:0000000000000000000000000000000000000000000000000000000000000000'',
       LLMCall],
      ErrorJSON 502 ''upstream_error'')"
proof -
  let ?E = "\<lparr>enc_string = (\<lambda>s. [CHR 0x22] @ s @ [CHR 0x22]), enc_float = (\<lambda>q. ''3''),
      enc_int = (\<lambda>i. ''7'')\<rparr>"
  let ?b = "\<lparr>b_model = Some ''gpt-4'',
                             b_messages = Some [\<lparr>Role = ''user'', Content = ''x''\<rparr>],
                             b_temperature = Some (Fin 3), b_top_p = None, b_max_tokens = None,
                             b_stop = None, b_stream = None\<rparr>"
  let ?rq = "\<lparr>decoded_body = Some ?b, X_User_ID = []\<rparr>"
  let ?h = "\<lparr>h_CacheTTL = 300000000000, h_VersionID = []\<rparr>"
  have v: "Validate (Decode ?b) = Some TemperatureRange"
    by code_simp
  have ns: "\<not> Stream (Decode ?b)"
    by (simp add: Decode_def)
  have k: "map_sum id key_String (BuildExactCacheKeyFromChatRequest ?E (\<lambda>s. 0) (Decode ?b) ''anon'' ''v1'')
        = Inr ''exact:anon:gpt-4:v1:0000000000000000000000000000000000000000000000000000000000000000''"
    by code_simp
  have d: "decoded_body ?rq = Some ?b"
    by simp
  from C1_invalid_request_reply [OF d v ns, where E = ?E and ?Sum256.0 = "\<lambda>s. 0"
      and cache_Get = "\<lambda>k. (None, False, None)" and Unmarshal = "\<lambda>bs. None"
      and Marshal = "\<lambda>resp. None" and exchange = "\<lambda>body. (Inr () :: unit client_error + unit)"
      and h = ?h] k v
  show ?thesis
    by (auto split: sum.splits)
qed

section \<open>The computed backoff\<close>

lemma ilog2_lower:
  assumes "0 < x"
  shows "2 powi (ilog2 x) \<le> x"
proof -
  obtain p q where pq: "quotient_of x = (p, q)"
    by (cases "quotient_of x") auto
  then have q: "0 < q" and x: "x = of_int p / of_int q"
    by (simp_all add: quotient_of_denom_pos quotient_of_div)
  from assms x q have p: "0 < p"
    by (simp add: zero_less_divide_iff)
  define d where "d = bitlen p - bitlen q"
  show ?thesis
  proof (cases "2 powi d \<le> x")
    case True
    then show ?thesis by (simp add: ilog2_def pq d_def Let_def)
  next
    case False
    have bp: "1 \<le> bitlen p" and bq: "0 \<le> bitlen q"
      using p bitlen_nonneg [of q] by (simp_all add: bitlen_alt_def)
    have "(2::int) ^ nat (bitlen p - 1) \<le> p"
      using bitlen_bounds [OF p] by simp
    then have "(of_int ((2::int) ^ nat (bitlen p - 1)) :: rat) \<le> of_int p"
      by (simp only: of_int_le_iff)
    then have lo: "(2::rat) powi (bitlen p - 1) \<le> of_int p"
      using bp by (simp add: power_int_nonneg_exp)
    have "q < (2::int) ^ nat (bitlen q)"
      using bitlen_bounds [OF q] by simp
    then have "(of_int q :: rat) < of_int ((2::int) ^ nat (bitlen q))"
      by (simp only: of_int_less_iff)
    then have hi: "(of_int q :: rat) \<le> 2 powi (bitlen q)"
      using bq by (simp add: power_int_nonneg_exp)
    have e: "d - 1 = (bitlen p - 1) - bitlen q"
      by (simp add: d_def)
    have "(2::rat) powi (d - 1) = 2 powi (bitlen p - 1) / 2 powi (bitlen q)"
      unfolding e by (rule power_int_diff) simp
    also have "\<dots> \<le> of_int p / of_int q"
      using lo hi q p by (intro frac_le) simp_all
    finally have "(2::rat) powi (d - 1) \<le> x"
      by (simp add: x)
    with False show ?thesis
      by (simp add: ilog2_def pq d_def Let_def)
  qed
qed

lemma round_half_even_bounds: "\<lfloor>y\<rfloor> \<le> round_half_even y" "round_half_even y \<le> \<lceil>y\<rceil>"
proof -
  show "\<lfloor>y\<rfloor> \<le> round_half_even y"
    by (simp add: round_half_even_def Let_def)
  have "y \<noteq> of_int \<lfloor>y\<rfloor> \<Longrightarrow> \<lfloor>y\<rfloor> + 1 \<le> \<lceil>y\<rceil>"
    by (metis ceiling_altdef order_refl)
  moreover have "\<lfloor>y\<rfloor> \<le> \<lceil>y\<rceil>"
    by (rule floor_le_ceiling)
  ultimately show "round_half_even y \<le> \<lceil>y\<rceil>"
    by (auto simp: round_half_even_def Let_def)
qed

lemma round_half_even_of_int: "round_half_even (of_int z) = z"
  by (simp add: round_half_even_def)


lemma ilog2_less:
  assumes "0 < x" and "x < 2 powi N"
  shows "ilog2 x < N"
proof (rule ccontr)
  assume "\<not> ilog2 x < N"
  then have "N \<le> ilog2 x" by simp
  then have "(2::rat) powi N \<le> 2 powi (ilog2 x)"
    by (rule power_int_increasing) simp
  also have "\<dots> \<le> x"
    using assms(1) by (rule ilog2_lower)
  finally show False
    using assms(2) by simp
qed

lemma f64_round_exact:
  assumes "\<bar>n\<bar> < 2 ^ 53"
  shows "f64_round (of_int n * 2 ^ k) = of_int n * 2 ^ k"
proof (cases "n = 0")
  case True
  then show ?thesis by (simp add: f64_round_def)
next
  case False
  define x :: rat where "x = of_int n * 2 ^ k"
  define e where "e = ilog2 \<bar>x\<bar>"
  define j where "j = int k + 52 - e"
  have x0: "x \<noteq> 0" and pos: "0 < \<bar>x\<bar>"
    using False by (simp_all add: x_def)
  have "(of_int \<bar>n\<bar> :: rat) < of_int (2 ^ 53)"
    using assms by (simp only: of_int_less_iff)
  then have "\<bar>x\<bar> < 2 ^ 53 * 2 ^ k"
    by (simp add: x_def abs_mult)
  also have "\<dots> = (2::rat) powi (53 + int k)"
    by (simp add: power_int_add)
  finally have "e < 53 + int k"
    unfolding e_def using pos by (intro ilog2_less)
  then have j: "0 \<le> j"
    by (simp add: j_def)
  have "(2::rat) powi int k = 2 powi (j + (e - 52))"
    by (simp add: j_def)
  also have "\<dots> = 2 powi j * 2 powi (e - 52)"
    by (rule power_int_add) simp
  finally have k: "(2::rat) ^ k = 2 ^ nat j * 2 powi (e - 52)"
    using j by (simp add: power_int_nonneg_exp)
  have q: "(2::rat) powi (e - 52) \<noteq> 0"
    by simp
  have "x / 2 powi (e - 52) = of_int n * 2 ^ nat j"
    using q by (simp add: x_def k)
  also have "\<dots> = of_int (n * 2 ^ nat j)"
    by simp
  finally have quot: "x / 2 powi (e - 52) = of_int (n * 2 ^ nat j)" .
  have "f64_round x = of_int (round_half_even (x / 2 powi (e - 52))) * 2 powi (e - 52)"
    using x0 by (simp add: f64_round_def Let_def e_def)
  also have "\<dots> = of_int (n * 2 ^ nat j) * 2 powi (e - 52)"
    by (simp only: quot round_half_even_of_int)
  also have "\<dots> = x"
    by (simp add: x_def k)
  finally show ?thesis
    by (simp add: x_def)
qed

lemma f64_round_of_int: "\<bar>n\<bar> < 2 ^ 53 \<Longrightarrow> f64_round (of_int n) = of_int n"
  using f64_round_exact [of n 0] by simp

lemma f64_round_bounded:
  assumes "0 \<le> x" and "x < of_int M" and "M \<le> 2 ^ 53"
  shows "0 \<le> f64_round x \<and> f64_round x \<le> of_int M"
proof (cases "x = 0")
  case True
  then show ?thesis
    using assms by (simp add: f64_round_def)
next
  case False
  with assms(1) have pos: "0 < x" by simp
  define e where "e = ilog2 \<bar>x\<bar>"
  define j where "j = nat (52 - e)"
  define q :: rat where "q = 2 powi (e - 52)"
  define y where "y = x / q"
  have "(of_int M :: rat) \<le> of_int (2 ^ 53)"
    using assms(3) by (simp only: of_int_le_iff)
  with assms(2) have "x < 2 powi 53"
    by simp
  then have "e < 53"
    unfolding e_def using pos by (intro ilog2_less) simp_all
  then have e: "e - 52 = - int j"
    by (simp add: j_def)
  have q: "q = 1 / 2 ^ j"
    by (simp add: q_def e power_int_minus_divide)
  have qpos: "0 < q"
    by (simp add: q)
  have y: "y = x * 2 ^ j"
    by (simp add: y_def q)
  have y0: "0 \<le> y"
    using pos by (simp add: y)
  have "y < of_int M * 2 ^ j"
    using assms(2) by (simp add: y)
  then have "y \<le> of_int (M * 2 ^ j)"
    by simp
  then have "\<lceil>y\<rceil> \<le> M * 2 ^ j"
    by (simp only: ceiling_le_iff)
  with round_half_even_bounds(2) [of y] have up: "round_half_even y \<le> M * 2 ^ j"
    by simp
  have fl: "0 \<le> \<lfloor>y\<rfloor>"
    using y0 by (simp only: zero_le_floor)
  have lo: "0 \<le> round_half_even y"
    using fl round_half_even_bounds(1) [of y] by (rule order_trans)
  have fr: "f64_round x = of_int (round_half_even y) * q"
    using False by (simp add: f64_round_def Let_def e_def q_def y_def)
  have "of_int (round_half_even y) * q \<le> of_int (M * 2 ^ j) * q"
    using up qpos by (simp only: mult_le_cancel_right_pos of_int_le_iff)
  also have "\<dots> = of_int M"
    by (simp add: q)
  finally have "f64_round x \<le> of_int M"
    by (simp add: fr)
  moreover have "0 \<le> f64_round x"
    using lo qpos by (simp add: fr)
  ultimately show ?thesis by simp
qed


lemma f64_to_int64_in_range:
  assumes "0 \<le> x" and "x \<le> of_int M" and "M < 9223372036854775808"
  shows "f64_to_int64 oor x = \<lfloor>x\<rfloor> \<and> 0 \<le> \<lfloor>x\<rfloor> \<and> \<lfloor>x\<rfloor> \<le> M"
proof -
  have lo: "0 \<le> \<lfloor>x\<rfloor>"
    using assms(1) by (simp only: zero_le_floor)
  have "\<lfloor>x\<rfloor> \<le> \<lfloor>(of_int M :: rat)\<rfloor>"
    using assms(2) by (rule floor_mono)
  then have hi: "\<lfloor>x\<rfloor> \<le> M"
    by simp
  have "(of_int M :: rat) < 9223372036854775808"
    using assms(3) by simp
  with assms(2) have "x < 9223372036854775808"
    by (rule le_less_trans)
  then have "f64_to_int64 oor x = \<lfloor>x\<rfloor>"
    using assms(1) lo by (simp add: f64_to_int64_def trunc_toward_zero_def Let_def)
  with lo hi show ?thesis by simp
qed

lemma f64_round_nonneg:
  assumes "0 \<le> x"
  shows "0 \<le> f64_round x"
proof (cases "x = 0")
  case True
  then show ?thesis by (simp add: f64_round_def)
next
  case False
  define q :: rat where "q = 2 powi (ilog2 \<bar>x\<bar> - 52)"
  have q: "0 < q"
    by (simp add: q_def)
  have "0 \<le> x / q"
    using assms q by simp
  then have "0 \<le> \<lfloor>x / q\<rfloor>"
    by (simp only: zero_le_floor)
  then have "0 \<le> round_half_even (x / q)"
    using round_half_even_bounds(1) [of "x / q"] by (rule order_trans)
  then have "0 \<le> of_int (round_half_even (x / q)) * q"
    using q by simp
  then show ?thesis
    using False by (simp add: f64_round_def Let_def q_def)
qed

lemma f64_to_int64_floor:
  assumes "0 \<le> x" and "x < 9223372036854775808"
  shows "f64_to_int64 oor x = \<lfloor>x\<rfloor> \<and> 0 \<le> \<lfloor>x\<rfloor>"
proof -
  have lo: "0 \<le> \<lfloor>x\<rfloor>"
    using assms(1) by (simp only: zero_le_floor)
  then show ?thesis
    using assms by (simp add: f64_to_int64_def trunc_toward_zero_def Let_def)
qed

text \<open>
  Where the bound holds. For every draw \<open>r\<close> in \<open>[0, 1)\<close>, every attempt number
  \<open>a \<ge> 0\<close> and every base for which the product \<open>float64(base) * 2^min(a, 10)\<close>,
  as computed, is below \<open>2^63\<close> (so that its conversion to a duration is defined), the
  wait \<open>d\<close> satisfies \<open>0 \<le> d \<le> min(b * 2^min(a, 10), 60s)\<close>, where \<open>b\<close> is the base
  when it is positive and 100 ms otherwise. This covers every base below \<open>2^53\<close>
  nanoseconds (about 104 days) at every attempt.
\<close>

lemma computeBackoff_bounds:
  assumes "0 \<le> r" and "r < 1" and "0 \<le> a"
    and "f64_round (f64_round (of_int (if b0 \<le> 0 then 100 * Millisecond else b0))
                      * 2 ^ nat (min a 10)) < 9223372036854775808"
  shows "0 \<le> computeBackoff oor r b0 a \<and>
         computeBackoff oor r b0 a
           \<le> min ((if 0 < b0 then b0 else 100 * Millisecond) * 2 ^ nat (min a 10)) (60 * Second)"
proof -
  define b where "b = (if b0 \<le> 0 then 100 * Millisecond else b0)"
  define a' where "a' = (if 10 < a then 10 else a)"
  define k where "k = nat a'"
  define v where "v = f64_round (f64_round (of_int b) * math_Pow2 a')"
  define z where "z = \<lfloor>v\<rfloor>"
  define M where "M = (if 60 * Second < z then 60 * Second else z)"
  have b: "0 < b"
    by (simp add: b_def Millisecond_def)
  have a': "0 \<le> a'" "a' = int k" "nat (min a 10) = k"
    using assms(3) by (simp_all add: a'_def k_def min_def)
  have pow: "math_Pow2 a' = 2 ^ k"
    using a' by (simp add: math_Pow2_def)
  have "0 \<le> f64_round (of_int b)"
    using b by (intro f64_round_nonneg) simp
  then have "0 \<le> f64_round (of_int b) * 2 ^ k"
    by simp
  then have v0: "0 \<le> v"
    unfolding v_def pow by (rule f64_round_nonneg)
  have v63: "v < 9223372036854775808"
    using assms(4) unfolding v_def pow b_def [symmetric] a'(3) .
  from f64_to_int64_floor [OF v0 v63, of oor]
  have mb: "f64_to_int64 oor v = z" and z0: "0 \<le> z"
    by (simp_all add: z_def)
  have M: "0 \<le> M" "M \<le> 60 * Second"
    using z0 by (simp_all add: M_def Second_def)
  have absM: "\<bar>M\<bar> < 2 ^ 53" and M53: "M \<le> 2 ^ 53" and M63: "M < 9223372036854775808"
    using M by (simp_all add: Second_def)
  have "computeBackoff oor r b0 a = f64_to_int64 oor (f64_round (r * f64_round (of_int M)))"
    unfolding computeBackoff_def Let_def b_def [symmetric] a'_def [symmetric] v_def [symmetric]
      mb M_def [symmetric] ..
  then have cb: "computeBackoff oor r b0 a = f64_to_int64 oor (f64_round (r * of_int M))"
    by (simp only: f64_round_of_int [OF absM])
  have res: "0 \<le> computeBackoff oor r b0 a \<and> computeBackoff oor r b0 a \<le> M"
  proof (cases "M = 0")
    case True
    then show ?thesis
      by (simp add: cb f64_round_def f64_to_int64_def trunc_toward_zero_def)
  next
    case False
    with M(1) have Mpos: "0 < M" by simp
    have x: "0 \<le> r * of_int M" "r * of_int M < of_int M"
      using assms(1,2) Mpos by simp_all
    from f64_round_bounded [OF x M53]
    have y: "0 \<le> f64_round (r * of_int M)" "f64_round (r * of_int M) \<le> of_int M"
      by simp_all
    from f64_to_int64_in_range [OF y M63, of oor] show ?thesis
      by (simp add: cb)
  qed
  have Mb: "M \<le> b * 2 ^ k"
  proof (cases "b < 2 ^ 53")
    case True
    with b have absb: "\<bar>b\<bar> < 2 ^ 53" by simp
    have "v = of_int b * 2 ^ k"
      by (simp add: v_def f64_round_of_int [OF absb] pow f64_round_exact [OF absb])
    also have "\<dots> = of_int (b * 2 ^ k)"
      by simp
    finally have "z = \<lfloor>(of_int (b * 2 ^ k) :: rat)\<rfloor>"
      by (simp only: z_def)
    then have "z = b * 2 ^ k"
      by (simp only: floor_of_int)
    then show ?thesis
      by (simp add: M_def)
  next
    case False
    then have "60 * Second \<le> b"
      by (simp add: Second_def)
    also have "b * 1 \<le> b * 2 ^ k"
      using b by (intro mult_left_mono) simp_all
    finally show ?thesis
      using M(2) by simp
  qed
  have "(if 0 < b0 then b0 else 100 * Millisecond) = b"
    by (simp add: b_def)
  then show ?thesis
    using res M(2) Mb a'(3) by simp
qed

lemma computeBackoff_bounds_small_base:
  assumes "0 \<le> r" and "r < 1" and "b0 < 2 ^ 53" and "0 \<le> a"
  shows "0 \<le> computeBackoff oor r b0 a \<and>
         computeBackoff oor r b0 a
           \<le> min ((if 0 < b0 then b0 else 100 * Millisecond) * 2 ^ nat (min a 10)) (60 * Second)"
proof -
  define b where "b = (if b0 \<le> 0 then 100 * Millisecond else b0)"
  define k where "k = nat (min a 10)"
  have b: "0 < b" "b < 2 ^ 53"
    using assms(3) by (simp_all add: b_def Millisecond_def)
  then have absb: "\<bar>b\<bar> < 2 ^ 53" by simp
  have k: "k \<le> 10"
    by (simp add: k_def)
  have "(2::int) ^ k \<le> 2 ^ 10"
    using k by (intro power_increasing) simp_all
  then have "b * 2 ^ k \<le> b * 2 ^ 10"
    using b(1) by (simp only: mult_le_cancel_left_pos)
  also have "\<dots> < 2 ^ 53 * 2 ^ 10"
    using b(2) by simp
  finally have z: "b * 2 ^ k < 9223372036854775808"
    by simp
  have "f64_round (f64_round (of_int b) * 2 ^ k) = of_int (b * 2 ^ k)"
    by (simp add: f64_round_of_int [OF absb] f64_round_exact [OF absb])
  also have "\<dots> < 9223372036854775808"
    using z by (simp only: of_int_less_numeral_iff)
  finally have "f64_round (f64_round (of_int b) * 2 ^ k) < 9223372036854775808" .
  then show ?thesis
    unfolding b_def k_def using assms(1,2,4) by (intro computeBackoff_bounds)
qed

lemma computeBackoff_example:
  "computeBackoff (\<lambda>x. - 9223372036854775808) (1 / 3) 0 20 = 20000000000 \<and>
   computeBackoff (\<lambda>x. - 9223372036854775808) (1 / 2) 9007199254740992 9 = 30000000000 \<and>
   computeBackoff (\<lambda>x. 9223372036854775807) (1 / 2) 9223372036854775807 0 = 30000000000"
  by code_simp

text \<open>
  C5. The claim: for every base duration and attempt number the wait lies between 0 and
  \<open>min(b * 2^min(a, 10), 60s)\<close>; the doc comment of \<open>computeBackoff\<close> says the same
  (\<open>Returns random value between 0 and (base * 2^attempt)\<close>, \<open>Cap the exponent to
  prevent overflow\<close>). Only the exponent is capped, and the cap of 60 seconds is applied
  after the conversion of the product to a duration. With the largest duration as base,
  at the first attempt, and with a base of \<open>2^53\<close> nanoseconds at attempt 10,
  \<open>float64(base) * 2^attempt\<close> is \<open>2^63\<close>, which does not fit in an \<open>int64\<close>; where the
  conversion then yields \<open>- 2^63\<close> (as on amd64), the cap does not apply and the wait
  is negative: \<open>- 2^62\<close> nanoseconds for the draw 1/2.
\<close>

theorem C5_backoff_negative_wait:
  "computeBackoff (\<lambda>x. - 9223372036854775808) (1 / 2) 9223372036854775807 0
     = - 4611686018427387904 \<and>
   computeBackoff (\<lambda>x. - 9223372036854775808) (1 / 2) 9007199254740992 10
     = - 4611686018427387904"
  by code_simp

end
